theory Spec2Isabelle
  imports Complex_Main "HOL-Library.Sublist"
begin

section \<open>Numbers, errors and array helpers\<close>

text \<open>
  Python floats are modelled as reals. The only operation of the code that leaves the
  finite floats for finite arguments is a division by zero, which numpy answers with
  \<open>inf\<close>, \<open>-inf\<close> or \<open>nan\<close> (and a warning) instead of raising; \<open>NonFinite\<close> stands for
  these three values, and arithmetic on it stays \<open>NonFinite\<close>.
\<close>

datatype fval = Fin real | NonFinite

definition fdiv :: "real \<Rightarrow> real \<Rightarrow> fval" where
  "fdiv x y = (if y = 0 then NonFinite else Fin (x / y))"

fun flift :: "(real \<Rightarrow> real) \<Rightarrow> fval \<Rightarrow> fval" where
  "flift f (Fin x) = Fin (f x)"
| "flift f NonFinite = NonFinite"

datatype error = AssertionError | IndexError | ValueError | AttributeError

definition err_bind :: "error + 'a \<Rightarrow> ('a \<Rightarrow> error + 'b) \<Rightarrow> error + 'b" where
  "err_bind r f = (case r of Inl e \<Rightarrow> Inl e | Inr x \<Rightarrow> f x)"

text \<open>Indexing a one-dimensional array with a Python integer: negative indices count
  from the end, anything else out of range raises IndexError.\<close>

definition norm_index :: "nat \<Rightarrow> int \<Rightarrow> nat option" where
  "norm_index n i =
     (if 0 \<le> i \<and> i < int n then Some (nat i)
      else if - int n \<le> i \<and> i < 0 then Some (nat (int n + i))
      else None)"

definition np_get :: "'a list \<Rightarrow> int \<Rightarrow> error + 'a" where
  "np_get xs i = (case norm_index (length xs) i of
                    None \<Rightarrow> Inl IndexError | Some k \<Rightarrow> Inr (xs ! k))"

text \<open>\<open>xs[idxs]\<close> with a list of integer indices.\<close>

fun np_take :: "'a list \<Rightarrow> int list \<Rightarrow> error + 'a list" where
  "np_take xs [] = Inr []"
| "np_take xs (i # is) =
     err_bind (np_get xs i) (\<lambda>x. err_bind (np_take xs is) (\<lambda>ys. Inr (x # ys)))"

text \<open>\<open>xs[idxs] = vals\<close> with a list of integer indices and as many values.\<close>

fun np_put :: "'a list \<Rightarrow> int list \<Rightarrow> 'a list \<Rightarrow> error + 'a list" where
  "np_put xs [] [] = Inr xs"
| "np_put xs (i # is) (v # vs) =
     (case norm_index (length xs) i of
        None \<Rightarrow> Inl IndexError
      | Some k \<Rightarrow> np_put (xs[k := v]) is vs)"
| "np_put xs _ _ = Inl ValueError"

text \<open>Elementwise addition of two one-dimensional arrays, with numpy's broadcasting of
  a length-one operand; other length mismatches raise ValueError.\<close>

definition np_add :: "real list \<Rightarrow> real list \<Rightarrow> error + real list" where
  "np_add xs ys =
     (if length xs = length ys then Inr (map2 (+) xs ys)
      else if length ys = 1 then Inr (map (\<lambda>x. x + hd ys) xs)
      else if length xs = 1 then Inr (map (\<lambda>y. hd xs + y) ys)
      else Inl ValueError)"

text \<open>\<open>dst[:] = src\<close>: the destination keeps its length; a length-one source is
  broadcast, any other length mismatch raises ValueError.\<close>

definition np_assign :: "'a list \<Rightarrow> 'a list \<Rightarrow> error + 'a list" where
  "np_assign dst src =
     (if length src = length dst then Inr src
      else if length src = 1 then Inr (replicate (length dst) (hd src))
      else Inl ValueError)"

text \<open>\<open>np.clip(x, lo, hi)\<close> is \<open>minimum(hi, maximum(x, lo))\<close>.\<close>

definition np_clip :: "real \<Rightarrow> real \<Rightarrow> real \<Rightarrow> real" where
  "np_clip x lo hi = min hi (max x lo)"

section \<open>The simulation backend's model and data\<close>

text \<open>
  The physics backend is outside the repository; its model and data objects are taken
  as they are read and written by \<open>FixedEye\<close>. The backend keeps one row per equality
  constraint in each of its \<open>eq_*\<close> arrays, so the arrays are modelled as one list of
  rows; \<open>jnt_range\<close> has one row (low, high) per joint, and \<open>njnt\<close> is its number of
  rows. The name tables \<open>joint_id2name\<close>, \<open>joint_name2id\<close>, \<open>camera_name2id\<close> and the
  geometry positions are the backend's tables, taken as parameters; they are total
  here, and what the backend does when asked for an id or a name that it does not know
  is not part of the model. Reading or writing an array out of its range is: it raises
  IndexError.
\<close>

record eq_constraint =
  eq_type :: int
  eq_obj1id :: int
  eq_obj2id :: int
  eq_active :: nat
  eq_data :: "real list"

record mjmodel =
  jnt_range :: "(real \<times> real) list"
  na :: nat
  eqs :: "eq_constraint list"
  joint_id2name :: "int \<Rightarrow> string"
  joint_name2id :: "string \<Rightarrow> int"
  camera_name2id :: "string \<Rightarrow> int"
  cam_pos :: "real list list"
  cam_quat :: "real list list"

definition njnt :: "mjmodel \<Rightarrow> nat" where
  "njnt m = length (jnt_range m)"

record mjdata =
  qpos :: "real list"
  qvel :: "real list"
  qacc :: "real list"
  act :: "real list"
  ctrl :: "real list"
  geom_xpos :: "string \<Rightarrow> real \<times> real \<times> real"

text \<open>An observation: the proprioception vector and the optional visual tensor
  (height \<times> width \<times> 4).\<close>

record observation =
  proprioception :: "fval list"
  visual :: "real list list list option"

text \<open>The state of the random generator: the unit-interval draws it will deliver, in
  order. Taking \<open>n\<close> draws delivers the first \<open>n\<close> and leaves the rest.\<close>

type_synonym rng_state = "nat \<Rightarrow> real"

definition rng_take :: "nat \<Rightarrow> rng_state \<Rightarrow> real list" where
  "rng_take n s = map s [0..<n]"

definition rng_drop :: "nat \<Rightarrow> rng_state \<Rightarrow> rng_state" where
  "rng_drop n s = (\<lambda>i. s (n + i))"

text \<open>
  The environment object. \<open>model\<close> is both \<open>self.model\<close> and \<open>self.sim.model\<close> (one
  object), \<open>sim_data\<close> is \<open>self.sim.data\<close>. The attribute \<open>eq_ID_shoulder1_r2\<close> exists only
  after a patch construction. The effort term is a stateful object of a type chosen by
  the caller, with its \<open>reset\<close> method; \<open>rng\<close> is the sequence of unit-interval draws the
  generator will deliver. \<open>sim_reset\<close>, \<open>sim_forward\<close> and \<open>sim_render\<close> are the backend's
  operations.
\<close>

record 'e env =
  shoulder_variant :: string
  model :: mjmodel
  sim_data :: mjdata
  dependent_joints :: "int list"
  independent_joints :: "int list"
  eq_ID_shoulder1_r2 :: "nat option"
  effort_term :: 'e
  effort_reset :: "'e \<Rightarrow> 'e"
  render_observations :: bool
  ocular_image_height :: nat
  ocular_image_width :: nat
  rng :: rng_state
  sim_reset :: "mjmodel \<Rightarrow> mjdata \<Rightarrow> mjdata"
  sim_forward :: "mjmodel \<Rightarrow> mjdata \<Rightarrow> mjdata"
  sim_render :: "mjmodel \<Rightarrow> mjdata \<Rightarrow> nat \<Rightarrow> nat \<Rightarrow> nat list list list \<times> real list list"

definition fingertip :: string where
  "fingertip = ''hand_2distph''"

section \<open>set_ctrl\<close>

text \<open>The coefficient written into the shoulder constraint, as a function of the
  elevation angle: \<open>-((np.pi - 2 * elevation) / np.pi)\<close>.\<close>

definition coupling_coef :: "real \<Rightarrow> real" where
  "coupling_coef elevation = - ((pi - 2 * elevation) / pi)"

text \<open>\<open>eq_data[idx, col] = v\<close> on the constraint rows.\<close>

definition set_eq_data :: "eq_constraint list \<Rightarrow> nat \<Rightarrow> nat \<Rightarrow> real \<Rightarrow> error + eq_constraint list" where
  "set_eq_data es idx col v =
     (if idx < length es \<and> col < length (eq_data (es ! idx))
      then Inr (es[idx := (es ! idx)\<lparr>eq_data := (eq_data (es ! idx))[col := v]\<rparr>])
      else Inl IndexError)"

text \<open>\<open>xs[i] = v\<close> for one row of an array, as in \<open>jnt_range[j, :] = ...\<close> and
  \<open>cam_pos[id] = ...\<close>.\<close>

definition np_set :: "'a list \<Rightarrow> int \<Rightarrow> 'a \<Rightarrow> error + 'a list" where
  "np_set xs i v =
     (case norm_index (length xs) i of
        None \<Rightarrow> Inl IndexError | Some k \<Rightarrow> Inr (xs[k := v]))"

definition new_ctrl :: "mjdata \<Rightarrow> real list \<Rightarrow> error + real list" where
  "new_ctrl d action =
     err_bind (np_add (act d) action)
       (\<lambda>s. np_assign (ctrl d) (map (\<lambda>x. np_clip x 0 1) s))"

text \<open>The range written for \<open>shoulder_rot\<close> by the variant patch-v2:
  \<open>[-pi/2, pi/9] - 2 * min(elv, pi - elv) / pi * ang\<close>.\<close>

definition patch_v2_range :: "real \<Rightarrow> real \<Rightarrow> real \<times> real" where
  "patch_v2_range elv ang =
     (- pi / 2 - 2 * min elv (pi - elv) / pi * ang,
      pi / 9 - 2 * min elv (pi - elv) / pi * ang)"

definition set_ctrl :: "'e env \<Rightarrow> real list \<Rightarrow> error + 'e env" where
  "set_ctrl self action =
     err_bind (new_ctrl (sim_data self) action) (\<lambda>c.
       let self1 = self\<lparr>sim_data := (sim_data self)\<lparr>ctrl := c\<rparr>\<rparr> in
       if prefix ''patch'' (shoulder_variant self1) then
         err_bind (np_get (qpos (sim_data self1)) (joint_name2id (model self1) ''shoulder_elv'')) (\<lambda>elv.
         err_bind (case eq_ID_shoulder1_r2 self1 of None \<Rightarrow> Inl AttributeError | Some i \<Rightarrow> Inr i) (\<lambda>eq_ID.
         err_bind (set_eq_data (eqs (model self1)) eq_ID 1 (coupling_coef elv)) (\<lambda>es.
           let self2 = self1\<lparr>model := (model self1)\<lparr>eqs := es\<rparr>\<rparr> in
           if shoulder_variant self2 = ''patch-v2'' then
             err_bind (np_get (qpos (sim_data self2)) (joint_name2id (model self2) ''shoulder_elv'')) (\<lambda>elv2.
             err_bind (np_get (qpos (sim_data self2)) (joint_name2id (model self2) ''elv_angle'')) (\<lambda>ang.
             err_bind (np_set (jnt_range (model self2)) (joint_name2id (model self2) ''shoulder_rot'')
                         (patch_v2_range elv2 ang)) (\<lambda>jr.
               Inr (self2\<lparr>model := (model self2)\<lparr>jnt_range := jr\<rparr>\<rparr>))))
           else Inr self2)))
       else Inr self1)"

section \<open>Construction\<close>

text \<open>\<open>np.unique(eq_obj1id[eq_active.astype(bool)])\<close>: the first-object ids of the
  active constraints, sorted and without duplicates.\<close>

definition compute_dependent_joints :: "mjmodel \<Rightarrow> int list" where
  "compute_dependent_joints m =
     sort (remdups (map eq_obj1id (filter (\<lambda>e. eq_active e \<noteq> 0) (eqs m))))"

text \<open>\<open>list(set(np.arange(njnt)) - set(dependent_joints))\<close>. Python lists a set in an
  order that belongs to the interpreter (its hash table), not to the program: the
  interpreter's listing is the parameter \<open>list_of_set\<close>, which receives the elements of
  the set in ascending order and returns them in the interpreter's order.\<close>

definition compute_independent_joints :: "(int list \<Rightarrow> int list) \<Rightarrow> mjmodel \<Rightarrow> int list" where
  "compute_independent_joints list_of_set m =
     list_of_set (filter (\<lambda>j. j \<notin> set (compute_dependent_joints m)) (map int [0..<njnt m]))"

text \<open>What a listing of sets does whatever its order: every element once.\<close>

definition lists_each_once :: "(int list \<Rightarrow> int list) \<Rightarrow> bool" where
  "lists_each_once list_of_set \<longleftrightarrow>
     (\<forall>xs. distinct xs \<longrightarrow> distinct (list_of_set xs) \<and> set (list_of_set xs) = set xs)"

text \<open>The condition of the list comprehension that looks for the shoulder constraint:
  type 2 (a joint coupling), a positive first id, a non-zero second id, and the two
  joints' names being \<open>shoulder1_r2\<close> and \<open>elv_angle\<close>.\<close>

definition shoulder_match :: "mjmodel \<Rightarrow> eq_constraint \<Rightarrow> bool" where
  "shoulder_match m e \<longleftrightarrow>
     eq_type e = 2 \<and> eq_obj1id e > 0 \<and> eq_obj2id e \<noteq> 0 \<and>
     {joint_id2name m (eq_obj1id e), joint_id2name m (eq_obj2id e)}
       = {''shoulder1_r2'', ''elv_angle''}"

definition shoulder_matches :: "mjmodel \<Rightarrow> nat list" where
  "shoulder_matches m = filter (\<lambda>idx. shoulder_match m (eqs m ! idx)) [0..<length (eqs m)]"

text \<open>The keyword arguments read by the constructor, each absent or given, and what the
  constructor receives from outside the class: the effort term used when none is given
  (\<open>effort_terms.Zero()\<close>), the effort terms' \<open>reset\<close>, the generator's draws, the
  interpreter's listing of a set and the backend's operations.\<close>

record 'e kwargs =
  kw_effort_term :: "'e option"
  kw_render_observations :: "bool option"
  kw_ocular_image_height :: "nat option"
  kw_ocular_image_width :: "nat option"

record 'e external =
  ext_effort_zero :: 'e
  ext_effort_reset :: "'e \<Rightarrow> 'e"
  ext_rng :: rng_state
  ext_list_of_set :: "int list \<Rightarrow> int list"
  ext_sim_reset :: "mjmodel \<Rightarrow> mjdata \<Rightarrow> mjdata"
  ext_sim_forward :: "mjmodel \<Rightarrow> mjdata \<Rightarrow> mjdata"
  ext_sim_render :: "mjmodel \<Rightarrow> mjdata \<Rightarrow> nat \<Rightarrow> nat \<Rightarrow> nat list list list \<times> real list list"

definition kwargs_get :: "'a option \<Rightarrow> 'a \<Rightarrow> 'a" where
  "kwargs_get v dflt = (case v of None \<Rightarrow> dflt | Some x \<Rightarrow> x)"

text \<open>\<open>__init__\<close>, from the point where the model \<open>m\<close> is loaded and the simulation with
  its data \<open>d\<close> exists. The action space, the reward function, the metadata and the
  callbacks are attributes that no operation below reads; they are left out.\<close>

definition init_env :: "string \<Rightarrow> mjmodel \<Rightarrow> mjdata \<Rightarrow> 'e external \<Rightarrow> 'e kwargs \<Rightarrow> error + 'e env" where
  "init_env variant m d ext kw =
     err_bind
       (if prefix ''patch'' variant then
          (let eq_ID = shoulder_matches m in
           if length eq_ID = 1 then Inr (Some (eq_ID ! 0)) else Inl AssertionError)
        else Inr None) (\<lambda>eq_ID.
     err_bind (np_set (cam_pos m) (camera_name2id m ''for_testing'') [1.5, -1.5, 0.9]) (\<lambda>cp.
     err_bind (np_set (cam_quat m) (camera_name2id m ''for_testing'') [0.6582, 0.6577, 0.2590, 0.2588]) (\<lambda>cq.
       Inr \<lparr> shoulder_variant = variant,
             model = m\<lparr>cam_pos := cp, cam_quat := cq\<rparr>,
             sim_data = d,
             dependent_joints = compute_dependent_joints m,
             independent_joints = compute_independent_joints (ext_list_of_set ext) m,
             eq_ID_shoulder1_r2 = eq_ID,
             effort_term = kwargs_get (kw_effort_term kw) (ext_effort_zero ext),
             effort_reset = ext_effort_reset ext,
             render_observations = kwargs_get (kw_render_observations kw) True,
             ocular_image_height = kwargs_get (kw_ocular_image_height kw) 80,
             ocular_image_width = kwargs_get (kw_ocular_image_width kw) 120,
             rng = ext_rng ext,
             sim_reset = ext_sim_reset ext,
             sim_forward = ext_sim_forward ext,
             sim_render = ext_sim_render ext \<rparr>)))"

section \<open>get_observation\<close>

text \<open>\<open>qpos - low / (high - low)\<close> followed by \<open>(qpos - 0.5) * 2\<close>, for one joint.\<close>

definition qpos_normalise :: "real \<Rightarrow> real \<times> real \<Rightarrow> fval" where
  "qpos_normalise q r =
     flift (\<lambda>x. (x - 0.5) * 2) (flift (\<lambda>x. q - x) (fdiv (fst r) (snd r - fst r)))"

text \<open>\<open>(act - 0.5) * 2\<close>, for one actuator.\<close>

definition act_normalise :: "real \<Rightarrow> real" where
  "act_normalise a = (a - 0.5) * 2"

text \<open>The visual observation from the rendered pair: the depth buffer and the colour
  image are rescaled and flipped upside down, and the depth becomes the fourth
  channel of every pixel.\<close>

definition visual_of :: "nat list list list \<times> real list list \<Rightarrow> real list list list" where
  "visual_of render =
     (let depth = rev (map (map (\<lambda>z. (z - 0.5) * 2)) (snd render));
          rgb = rev (map (map (map (\<lambda>c. (real c / 255.0 - 0.5) * 2))) (fst render))
      in map2 (\<lambda>row drow. map2 (\<lambda>px z. px @ [z]) row drow) rgb depth)"

definition get_observation :: "'e env \<Rightarrow> error + observation" where
  "get_observation self =
     err_bind (np_take (jnt_range (model self)) (independent_joints self)) (\<lambda>jr.
     err_bind (np_take (qpos (sim_data self)) (independent_joints self)) (\<lambda>q.
     err_bind (np_take (qvel (sim_data self)) (independent_joints self)) (\<lambda>qv.
     err_bind (np_take (qacc (sim_data self)) (independent_joints self)) (\<lambda>qa.
       let qn = map2 qpos_normalise q jr;
           (x, y, z) = geom_xpos (sim_data self) fingertip;
           a = map act_normalise (act (sim_data self));
           p = qn @ map Fin qv @ map Fin qa @ map Fin [x, y, z] @ map Fin a
       in Inr \<lparr> proprioception = p,
                visual = (if render_observations self
                          then Some (visual_of (sim_render self (model self) (sim_data self)
                                      (ocular_image_width self) (ocular_image_height self)))
                          else None) \<rparr>))))"

section \<open>reset\<close>

text \<open>\<open>rng.uniform(low, high)\<close> with arrays of bounds: one draw \<open>u\<close> of the unit interval
  per entry, delivered as \<open>low + (high - low) * u\<close>.\<close>

definition rng_uniform :: "rng_state \<Rightarrow> real list \<Rightarrow> real list \<Rightarrow> real list \<times> rng_state" where
  "rng_uniform s low high =
     (map2 (\<lambda>u (l, h). l + (h - l) * u) (rng_take (length low) s) (zip low high),
      rng_drop (length low) s)"

text \<open>The state written by \<open>reset\<close> up to, and without, the call of \<open>sim.forward()\<close>.\<close>

definition reset_state :: "'e env \<Rightarrow> error + 'e env" where
  "reset_state self =
     (let d0 = sim_reset self (model self) (sim_data self);
          nq = length (independent_joints self);
          (qpos_s, r1) = rng_uniform (rng self) (replicate nq (- 0.05)) (replicate nq 0.05);
          (qvel_s, r2) = rng_uniform r1 (replicate nq (- 0.05)) (replicate nq 0.05);
          (act_s, r3) = rng_uniform r2 (replicate (na (model self)) 0) (replicate (na (model self)) 1)
      in
      err_bind (np_put (replicate (length (qpos d0)) 0) (independent_joints self) qpos_s) (\<lambda>qp.
      err_bind (np_put (replicate (length (qvel d0)) 0) (independent_joints self) qvel_s) (\<lambda>qv.
      err_bind (np_assign (act d0) act_s) (\<lambda>a.
        Inr (self\<lparr> sim_data := d0\<lparr>qpos := qp, qvel := qv, act := a\<rparr>,
                   rng := r3,
                   effort_term := effort_reset self (effort_term self) \<rparr>)))))"

definition reset :: "'e env \<Rightarrow> error + observation \<times> 'e env" where
  "reset self =
     err_bind (reset_state self) (\<lambda>self1.
       let self2 = self1\<lparr>sim_data := sim_forward self1 (model self1) (sim_data self1)\<rparr> in
       err_bind (get_observation self2) (\<lambda>obs. Inr (obs, self2)))"

section \<open>Definitions the properties are stated against\<close>

text \<open>The inverse map \<open>b / 2 + 0.5\<close> of the activation normalisation. The source has
  no denormalisation; this is the map the property of the normalisation is stated
  against.\<close>

definition act_denormalise :: "real \<Rightarrow> real" where
  "act_denormalise b = b / 2 + 0.5"

text \<open>The conventional rescaling of a position to the unit interval, followed by the
  same centring: \<open>((q - low) / (high - low) - 0.5) * 2\<close>. The source does not compute
  it; it is what \<open>qpos_normalise\<close> is compared with.\<close>

definition unit_interval_rescale :: "real \<Rightarrow> real \<times> real \<Rightarrow> real" where
  "unit_interval_rescale q r = ((q - fst r) / (snd r - fst r) - 0.5) * 2"

text \<open>The claim's wording of the constraint that is looked for: a constraint of the
  joint-coupling type whose two joints are named \<open>shoulder1_r2\<close> and \<open>elv_angle\<close>.\<close>

definition links_shoulder_joints :: "mjmodel \<Rightarrow> eq_constraint \<Rightarrow> bool" where
  "links_shoulder_joints m e \<longleftrightarrow>
     eq_type e = 2 \<and>
     {joint_id2name m (eq_obj1id e), joint_id2name m (eq_obj2id e)}
       = {''shoulder1_r2'', ''elv_angle''}"

text \<open>The two name tables agree on the joints of the joint-coupling constraints, whose
  ids are not negative.\<close>

definition joint_tables_consistent :: "mjmodel \<Rightarrow> bool" where
  "joint_tables_consistent m \<longleftrightarrow>
     (\<forall>e \<in> set (eqs m). eq_type e = 2 \<longrightarrow>
        0 \<le> eq_obj1id e \<and> 0 \<le> eq_obj2id e \<and>
        joint_name2id m (joint_id2name m (eq_obj1id e)) = eq_obj1id e \<and>
        joint_name2id m (joint_id2name m (eq_obj2id e)) = eq_obj2id e)"

text \<open>What the patch branch of \<open>set_ctrl\<close> indexes is there: the joint \<open>shoulder_elv\<close>
  indexes the positions, the cached constraint index points at a constraint row with a
  column 1, and, for patch-v2, the joint \<open>elv_angle\<close> indexes the positions and the joint
  \<open>shoulder_rot\<close> the joint ranges.\<close>

definition patch_ready :: "'e env \<Rightarrow> bool" where
  "patch_ready self \<longleftrightarrow>
     norm_index (length (qpos (sim_data self))) (joint_name2id (model self) ''shoulder_elv'') \<noteq> None \<and>
     (case eq_ID_shoulder1_r2 self of
        None \<Rightarrow> False
      | Some i \<Rightarrow> i < length (eqs (model self)) \<and> 1 < length (eq_data (eqs (model self) ! i))) \<and>
     (shoulder_variant self = ''patch-v2'' \<longrightarrow>
        norm_index (length (qpos (sim_data self))) (joint_name2id (model self) ''elv_angle'') \<noteq> None \<and>
        norm_index (length (jnt_range (model self))) (joint_name2id (model self) ''shoulder_rot'') \<noteq> None)"

section \<open>Concrete models and environments\<close>

definition ex_id2name :: "int \<Rightarrow> string" where
  "ex_id2name i =
     (if i = 0 then ''sternoclavicular_r2'' else if i = 1 then ''elv_angle''
      else if i = 2 then ''shoulder_elv'' else if i = 3 then ''shoulder1_r2''
      else if i = 4 then ''shoulder_rot'' else [])"

definition ex_name2id :: "string \<Rightarrow> int" where
  "ex_name2id n =
     (if n = ''sternoclavicular_r2'' then 0 else if n = ''elv_angle'' then 1
      else if n = ''shoulder_elv'' then 2 else if n = ''shoulder1_r2'' then 3
      else 4)"

definition ex_model :: mjmodel where
  "ex_model =
     \<lparr> jnt_range = [(-1, 1), (-2, 2), (0, 3), (-2, 2), (-1, 1/2)],
       na = 2,
       eqs = [\<lparr> eq_type = 2, eq_obj1id = 3, eq_obj2id = 1, eq_active = 1,
                 eq_data = [0, 1, 0, 0, 0] \<rparr>],
       joint_id2name = ex_id2name,
       joint_name2id = ex_name2id,
       camera_name2id = (\<lambda>n. 0),
       cam_pos = [[0, 0, 0]],
       cam_quat = [[1, 0, 0, 0]] \<rparr>"

definition ex_data :: mjdata where
  "ex_data =
     \<lparr> qpos = [1/100, 1/50, 0, 3/100, 1/25],
       qvel = [0, 0, 0, 0, 0],
       qacc = [0, 0, 0, 0, 0],
       act = [1/4, 3/4],
       ctrl = [0, 0],
       geom_xpos = (\<lambda>n. (1/10, 1/5, 3/10)) \<rparr>"

definition ex_external :: "nat external" where
  "ex_external =
     \<lparr> ext_effort_zero = 0,
       ext_effort_reset = (\<lambda>e. 0),
       ext_rng = (\<lambda>i. if even i then 1/4 else 3/4),
       ext_list_of_set = (\<lambda>xs. xs),
       ext_sim_reset = (\<lambda>m d. d),
       ext_sim_forward = (\<lambda>m d. d\<lparr>qacc := map (\<lambda>a. 1) (qacc d)\<rparr>),
       ext_sim_render = (\<lambda>m d w h. (replicate h (replicate w [255, 0, 51]), replicate h (replicate w 1))) \<rparr>"

definition ex_kwargs :: "nat kwargs" where
  "ex_kwargs =
     \<lparr> kw_effort_term = Some 7,
       kw_render_observations = Some False,
       kw_ocular_image_height = Some 1,
       kw_ocular_image_width = Some 2 \<rparr>"

definition ex_env :: "string \<Rightarrow> nat env" where
  "ex_env variant =
     \<lparr> shoulder_variant = variant,
       model = ex_model\<lparr>cam_pos := [[1.5, -1.5, 0.9]], cam_quat := [[0.6582, 0.6577, 0.2590, 0.2588]]\<rparr>,
       sim_data = ex_data,
       dependent_joints = [3],
       independent_joints = [0, 1, 2, 4],
       eq_ID_shoulder1_r2 = (if prefix ''patch'' variant then Some 0 else None),
       effort_term = 7,
       effort_reset = (\<lambda>e. 0),
       render_observations = False,
       ocular_image_height = 1,
       ocular_image_width = 2,
       rng = (\<lambda>i. if even i then 1/4 else 3/4),
       sim_reset = (\<lambda>m d. d),
       sim_forward = (\<lambda>m d. d\<lparr>qacc := map (\<lambda>a. 1) (qacc d)\<rparr>),
       sim_render = (\<lambda>m d w h. (replicate h (replicate w [255, 0, 51]), replicate h (replicate w 1))) \<rparr>"

definition ex_obs :: observation where
  "ex_obs =
     \<lparr> proprioception =
         [Fin (1/50), Fin (1/25), Fin (- 1), Fin (31/75),
          Fin 0, Fin 0, Fin 0, Fin 0,
          Fin 0, Fin 0, Fin 0, Fin 0,
          Fin (1/10), Fin (1/5), Fin (3/10),
          Fin (- 1/2), Fin (1/2)],
       visual = None \<rparr>"

definition ex_after_patch_v1 :: "nat env" where
  "ex_after_patch_v1 =
     (ex_env ''patch-v1'')
        \<lparr>sim_data := ex_data\<lparr>ctrl := [1/4, 3/4]\<rparr>,
         model := (model (ex_env ''patch-v1''))
           \<lparr>eqs := [\<lparr> eq_type = 2, eq_obj1id = 3, eq_obj2id = 1, eq_active = 1,
                       eq_data = [0, - 1, 0, 0, 0] \<rparr>]\<rparr>\<rparr>"

definition ex_after_patch_v2 :: "nat env" where
  "ex_after_patch_v2 =
     (ex_env ''patch-v2'')
        \<lparr>sim_data := ex_data\<lparr>ctrl := [1/4, 3/4]\<rparr>,
         model := (model (ex_env ''patch-v2''))
           \<lparr>eqs := [\<lparr> eq_type = 2, eq_obj1id = 3, eq_obj2id = 1, eq_active = 1,
                       eq_data = [0, - 1, 0, 0, 0] \<rparr>],
            jnt_range := [(-1, 1), (-2, 2), (0, 3), (-2, 2), (- pi / 2, pi / 9)]\<rparr>\<rparr>"

definition ex_reset_pre :: "nat env" where
  "ex_reset_pre =
     (ex_env ''original'')
       \<lparr> sim_data := ex_data\<lparr>qpos := [- 1/40, 1/40, - 1/40, 0, 1/40],
                              qvel := [- 1/40, 1/40, - 1/40, 0, 1/40],
                              act := [1/4, 3/4]\<rparr>,
         rng := rng_drop 10 (rng (ex_env ''original'')),
         effort_term := 0 \<rparr>"

definition ex_reset_post :: "nat env" where
  "ex_reset_post = ex_reset_pre\<lparr>sim_data := (sim_data ex_reset_pre)\<lparr>qacc := [1, 1, 1, 1, 1]\<rparr>\<rparr>"

definition ex_reset_obs :: observation where
  "ex_reset_obs =
     \<lparr> proprioception =
         [Fin (- 1/20), Fin (1/20), Fin (- 21/20), Fin (23/60),
          Fin (- 1/40), Fin (1/40), Fin (- 1/40), Fin (1/40),
          Fin 1, Fin 1, Fin 1, Fin 1,
          Fin (1/10), Fin (1/5), Fin (3/10),
          Fin (- 1/2), Fin (1/2)],
       visual = None \<rparr>"

text \<open>A model with one joint and a weld constraint (type 1) whose first object is the
  body with id 2.\<close>

definition weld_model :: mjmodel where
  "weld_model =
     \<lparr> jnt_range = [(- 1, 1)],
       na = 2,
       eqs = [\<lparr> eq_type = 1, eq_obj1id = 2, eq_obj2id = 0, eq_active = 1,
                 eq_data = [0, 0, 0, 0, 0] \<rparr>],
       joint_id2name = ex_id2name,
       joint_name2id = ex_name2id,
       camera_name2id = (\<lambda>n. 0),
       cam_pos = [[0, 0, 0]],
       cam_quat = [[1, 0, 0, 0]] \<rparr>"

text \<open>The environment that the construction returns for \<open>weld_model\<close>.\<close>

definition weld_env :: "nat env" where
  "weld_env =
     (ex_env ''original'')
        \<lparr>model := weld_model\<lparr>cam_pos := [[1.5, -1.5, 0.9]],
                              cam_quat := [[0.6582, 0.6577, 0.2590, 0.2588]]\<rparr>,
         dependent_joints := [2], independent_joints := [0]\<rparr>"

text \<open>A model without any equality constraint, for the failing construction.\<close>

definition unconstrained_model :: mjmodel where
  "unconstrained_model = ex_model\<lparr>eqs := []\<rparr>"

section \<open>Facts about the helpers\<close>

lemma err_bind_Inl [simp]: "err_bind (Inl e) f = Inl e"
  by (simp add: err_bind_def)

lemma err_bind_Inr [simp]: "err_bind (Inr x) f = f x"
  by (simp add: err_bind_def)

lemma err_bind_eq_Inr: "err_bind r f = Inr y \<longleftrightarrow> (\<exists>x. r = Inr x \<and> f x = Inr y)"
  by (cases r) simp_all

lemma norm_index_less: "norm_index n i = Some k \<Longrightarrow> k < n"
  by (auto simp: norm_index_def split: if_splits)

lemma norm_index_nonneg: "0 \<le> i \<Longrightarrow> norm_index n i = Some k \<longleftrightarrow> i < int n \<and> k = nat i"
  by (auto simp: norm_index_def)

lemma np_get_Inr: "np_get xs i = Inr x \<longleftrightarrow> (\<exists>k. norm_index (length xs) i = Some k \<and> x = xs ! k)"
  by (auto simp: np_get_def split: option.splits)

lemma np_get_success: "norm_index (length xs) i = Some j \<Longrightarrow> \<exists>x. np_get xs i = Inr x"
  by (simp add: np_get_def)

lemma np_set_Inr:
  "np_set xs i v = Inr ys \<longleftrightarrow> (\<exists>k. norm_index (length xs) i = Some k \<and> ys = xs[k := v])"
  by (auto simp: np_set_def split: option.splits)

lemma np_take_Inr:
  "np_take xs is = Inr ys \<Longrightarrow>
     length ys = length is \<and> (\<forall>k < length is. np_get xs (is ! k) = Inr (ys ! k))"
proof (induction "is" arbitrary: ys)
  case Nil
  then show ?case by simp
next
  case (Cons i "is")
  from Cons.prems obtain x zs where x: "np_get xs i = Inr x"
    and zs: "np_take xs is = Inr zs" and ys: "ys = x # zs"
    by (auto simp: err_bind_eq_Inr)
  from Cons.IH [OF zs] x ys show ?case
    by (auto simp: nth_Cons split: nat.splits)
qed

lemma np_take_success:
  "(\<forall>i \<in> set is. \<exists>x. np_get xs i = Inr x) \<Longrightarrow> \<exists>ys. np_take xs is = Inr ys"
  by (induction "is") auto

lemma np_put_Inr:
  "np_put xs is vs = Inr ys \<Longrightarrow>
     length ys = length xs \<and> length vs = length is \<and>
     (\<forall>i \<in> set is. \<exists>j. norm_index (length xs) i = Some j) \<and>
     (\<forall>j < length xs.
        ((\<forall>i \<in> set is. norm_index (length xs) i \<noteq> Some j) \<longrightarrow> ys ! j = xs ! j) \<and>
        ((\<exists>i \<in> set is. norm_index (length xs) i = Some j) \<longrightarrow> ys ! j \<in> set vs))"
proof (induction xs "is" vs arbitrary: ys rule: np_put.induct)
  case (1 xs)
  then show ?case by simp
next
  case (2 xs i "is" v vs)
  from "2.prems" obtain k where k: "norm_index (length xs) i = Some k"
    and rest: "np_put (xs[k := v]) is vs = Inr ys"
    by (auto split: option.splits)
  have kl: "k < length xs" using k by (rule norm_index_less)
  note IH = "2.IH" [OF k rest, simplified]
  show ?case
  proof (intro conjI ballI allI impI)
    show "length ys = length xs" using IH by simp
    show "length (v # vs) = length (i # is)" using IH by simp
  next
    fix i' assume "i' \<in> set (i # is)"
    then show "\<exists>j. norm_index (length xs) i' = Some j" using k IH by auto
  next
    fix j assume j: "j < length xs"
      and nohit: "\<forall>i' \<in> set (i # is). norm_index (length xs) i' \<noteq> Some j"
    then have "j \<noteq> k" using k by auto
    moreover from nohit have "\<forall>i' \<in> set is. norm_index (length xs) i' \<noteq> Some j" by simp
    ultimately show "ys ! j = xs ! j" using IH j by simp
  next
    fix j assume j: "j < length xs"
      and hit: "\<exists>i' \<in> set (i # is). norm_index (length xs) i' = Some j"
    show "ys ! j \<in> set (v # vs)"
    proof (cases "\<exists>i' \<in> set is. norm_index (length xs) i' = Some j")
      case True
      then show ?thesis using IH j by simp
    next
      case False
      with hit k have "j = k" by auto
      moreover from False have "ys ! j = (xs[k := v]) ! j" using IH j by simp
      ultimately show ?thesis using kl by simp
    qed
  qed
qed simp_all

lemma np_put_success:
  "length vs = length is \<Longrightarrow> (\<forall>i \<in> set is. \<exists>j. norm_index (length xs) i = Some j)
     \<Longrightarrow> \<exists>ys. np_put xs is vs = Inr ys"
proof (induction xs "is" vs rule: np_put.induct)
  case (2 xs i "is" v vs)
  then show ?case by (auto split: option.splits)
qed simp_all

lemma np_put_exact:
  "np_put xs is vs = Inr ys \<Longrightarrow> distinct is \<Longrightarrow> (\<forall>i \<in> set is. 0 \<le> i) \<Longrightarrow>
     (\<forall>k < length is. ys ! nat (is ! k) = vs ! k)"
proof (induction xs "is" vs arbitrary: ys rule: np_put.induct)
  case (1 xs)
  then show ?case by simp
next
  case (2 xs i "is" v vs)
  from "2.prems" obtain k where k: "norm_index (length xs) i = Some k"
    and rest: "np_put (xs[k := v]) is vs = Inr ys"
    by (auto split: option.splits)
  from "2.prems" have i0: "0 \<le> i" and d: "distinct is" and ni: "i \<notin> set is"
    and nn: "\<forall>i \<in> set is. 0 \<le> i"
    by simp_all
  from k i0 have ki: "k = nat i"
    by (simp add: norm_index_nonneg)
  have kl: "k < length xs" using k by (rule norm_index_less)
  note IH = "2.IH" [OF k rest d nn]
  have nohit: "\<forall>i' \<in> set is. norm_index (length (xs[k := v])) i' \<noteq> Some k"
  proof
    fix i' assume i': "i' \<in> set is"
    with nn have "0 \<le> i'" by simp
    moreover from i' ni have "i' \<noteq> i" by auto
    ultimately show "norm_index (length (xs[k := v])) i' \<noteq> Some k"
      using i0 ki by (auto simp: norm_index_nonneg)
  qed
  from np_put_Inr [OF rest] nohit kl have first: "ys ! k = v" by simp
  show ?case
  proof (intro allI impI)
    fix m assume "m < length (i # is)"
    then show "ys ! nat ((i # is) ! m) = (v # vs) ! m"
      using IH first ki by (cases m) simp_all
  qed
qed simp_all

lemma np_put_zero_samples:
  assumes put: "np_put (replicate m (0::real)) is vs = Inr ys"
    and vs: "\<forall>v \<in> set vs. lo \<le> v \<and> v \<le> hi"
  shows "\<forall>i \<in> set is. \<exists>j. norm_index m i = Some j \<and> lo \<le> ys ! j \<and> ys ! j \<le> hi"
proof
  fix i assume i: "i \<in> set is"
  note P = np_put_Inr [OF put, simplified]
  from P i obtain j where j: "norm_index m i = Some j" by blast
  then have jm: "j < m" by (rule norm_index_less)
  with P i j have "ys ! j \<in> set vs" by blast
  with vs j show "\<exists>j. norm_index m i = Some j \<and> lo \<le> ys ! j \<and> ys ! j \<le> hi" by blast
qed

lemma np_put_zero_rest:
  assumes put: "np_put (replicate m (0::real)) is vs = Inr ys"
  shows "length ys = m \<and> (\<forall>j < m. (\<forall>i \<in> set is. norm_index m i \<noteq> Some j) \<longrightarrow> ys ! j = 0)"
  using np_put_Inr [OF put] by simp

lemma np_assign_Inr:
  "np_assign dst src = Inr ys \<Longrightarrow> length ys = length dst \<and> set ys \<subseteq> set src"
  by (cases src) (auto simp: np_assign_def split: if_splits)

lemma np_clip_unit: "0 \<le> np_clip x 0 1 \<and> np_clip x 0 1 \<le> 1"
  by (simp add: np_clip_def)

lemma set_eq_data_Inr:
  "set_eq_data es idx col v = Inr es' \<longleftrightarrow>
     idx < length es \<and> col < length (eq_data (es ! idx)) \<and>
     es' = es[idx := (es ! idx)\<lparr>eq_data := (eq_data (es ! idx))[col := v]\<rparr>]"
  by (auto simp: set_eq_data_def)

lemma rng_drop_drop: "rng_drop m (rng_drop n s) = rng_drop (n + m) s"
  by (simp add: rng_drop_def add.assoc)

lemma rng_drop_apply: "rng_drop n s k = s (n + k)"
  by (simp add: rng_drop_def)

lemma rng_uniform_replicate:
  "rng_uniform s (replicate n lo) (replicate n hi) =
     (map (\<lambda>k. lo + (hi - lo) * s k) [0..<n], rng_drop n s)"
proof -
  have "map2 (\<lambda>u (l, h). l + (h - l) * u) (map s [0..<n]) (zip (replicate n lo) (replicate n hi))
          = map (\<lambda>k. lo + (hi - lo) * s k) [0..<n]"
    by (rule nth_equalityI) simp_all
  then show ?thesis by (simp add: rng_uniform_def rng_take_def)
qed

lemma sample_bounds:
  assumes "0 \<le> (u::real)" and "u \<le> 1"
  shows "- 0.05 \<le> - 0.05 + (0.05 - - 0.05) * u \<and> - 0.05 + (0.05 - - 0.05) * u \<le> 0.05"
  using assms by simp

lemma length_one_iff_unique:
  assumes "distinct xs"
  shows "length xs = 1 \<longleftrightarrow> (\<exists>!x. x \<in> set xs)"
proof
  assume "length xs = 1"
  then obtain x where "xs = [x]" by (cases xs) auto
  then show "\<exists>!x. x \<in> set xs" by simp
next
  assume u: "\<exists>!x. x \<in> set xs"
  then obtain x where x: "x \<in> set xs" and only: "\<And>y. y \<in> set xs \<Longrightarrow> y = x" by blast
  then have "set xs = {x}" by blast
  then have "card (set xs) = 1" by simp
  moreover from assms have "card (set xs) = length xs" by (rule distinct_card)
  ultimately show "length xs = 1" by simp
qed

lemma centre_inj: "((a::real) - 0.5) * 2 = (b - 0.5) * 2 \<longleftrightarrow> a = b"
  by simp

section \<open>The concrete environment, evaluated\<close>

lemma ex_init_original: "init_env ''original'' ex_model ex_data ex_external ex_kwargs = Inr (ex_env ''original'')"
  by (simp add: init_env_def ex_env_def ex_model_def ex_external_def ex_kwargs_def np_set_def norm_index_def
      kwargs_get_def compute_dependent_joints_def compute_independent_joints_def njnt_def upt_conv_Cons)

lemma ex_shoulder_matches: "shoulder_matches ex_model = [0]"
  by (simp add: shoulder_matches_def shoulder_match_def ex_model_def ex_id2name_def)

lemma ex_init_patch: "init_env ''patch-v2'' ex_model ex_data ex_external ex_kwargs = Inr (ex_env ''patch-v2'')"
  by (simp add: init_env_def ex_shoulder_matches) (simp add: ex_env_def ex_model_def ex_external_def ex_kwargs_def np_set_def norm_index_def
      kwargs_get_def compute_dependent_joints_def compute_independent_joints_def njnt_def upt_conv_Cons)

lemma ex_set_ctrl_patch_v1:
  "set_ctrl (ex_env ''patch-v1'') [0, 0] = Inr ex_after_patch_v1"
  by (simp add: set_ctrl_def new_ctrl_def np_add_def np_assign_def np_clip_def ex_env_def
      ex_data_def ex_model_def ex_name2id_def np_get_def norm_index_def set_eq_data_def
      coupling_coef_def ex_after_patch_v1_def)

lemma ex_set_ctrl_patch_v2:
  "set_ctrl (ex_env ''patch-v2'') [0, 0] = Inr ex_after_patch_v2"
  by (simp add: set_ctrl_def new_ctrl_def np_add_def np_assign_def np_clip_def ex_env_def
      ex_data_def ex_model_def ex_name2id_def np_get_def norm_index_def set_eq_data_def
      coupling_coef_def np_set_def patch_v2_range_def ex_after_patch_v2_def)

lemma ex_set_ctrl_original_delta:
  "set_ctrl (ex_env ''original'') [1/8, -3] =
     Inr ((ex_env ''original'')\<lparr>sim_data := ex_data\<lparr>ctrl := [3/8, 0]\<rparr>\<rparr>)"
  by (simp add: set_ctrl_def new_ctrl_def np_add_def np_assign_def np_clip_def ex_env_def ex_data_def)

lemma ex_set_ctrl_patch_v2_delta:
  "set_ctrl (ex_env ''patch-v2'') [1/8, 1/2] =
     Inr (ex_after_patch_v2\<lparr>sim_data := ex_data\<lparr>ctrl := [3/8, 1]\<rparr>\<rparr>)"
  by (simp add: set_ctrl_def new_ctrl_def np_add_def np_assign_def np_clip_def ex_env_def
      ex_data_def ex_model_def ex_name2id_def np_get_def norm_index_def set_eq_data_def
      coupling_coef_def np_set_def patch_v2_range_def ex_after_patch_v2_def)

lemma ex_patch_ready: "patch_ready (ex_env ''patch-v1'')" "patch_ready (ex_env ''patch-v2'')"
  by (simp_all add: patch_ready_def ex_env_def ex_data_def ex_model_def ex_name2id_def norm_index_def)

lemma ex_get_observation: "get_observation (ex_env ''original'') = Inr ex_obs"
  by (simp add: get_observation_def ex_env_def ex_model_def ex_data_def ex_obs_def np_get_def
      norm_index_def qpos_normalise_def fdiv_def act_normalise_def fingertip_def)

lemma ex_reset_state: "reset_state (ex_env ''original'') = Inr ex_reset_pre"
  by (simp add: reset_state_def rng_uniform_replicate rng_drop_drop rng_drop_apply
      ex_env_def ex_model_def ex_data_def ex_reset_pre_def norm_index_def np_assign_def
      upt_conv_Cons)
     (simp add: eval_nat_numeral)

lemma ex_get_observation_post: "get_observation ex_reset_post = Inr ex_reset_obs"
  by (simp add: get_observation_def ex_reset_post_def ex_reset_pre_def ex_env_def ex_model_def
      ex_data_def ex_reset_obs_def np_get_def
      norm_index_def qpos_normalise_def fdiv_def act_normalise_def fingertip_def)

lemma ex_reset: "reset (ex_env ''original'') = Inr (ex_reset_obs, ex_reset_post)"
proof -
  have "ex_reset_pre\<lparr>sim_data := sim_forward ex_reset_pre (model ex_reset_pre) (sim_data ex_reset_pre)\<rparr>
          = ex_reset_post"
    by (simp add: ex_reset_post_def ex_reset_pre_def ex_env_def ex_data_def)
  then show ?thesis
    by (simp add: reset_def ex_reset_state Let_def ex_get_observation_post)
qed

section \<open>Properties of set_ctrl\<close>

lemma new_ctrl_unit:
  assumes "new_ctrl d action = Inr c" and "x \<in> set c"
  shows "0 \<le> x \<and> x \<le> 1"
proof -
  from assms(1) obtain s where c: "np_assign (ctrl d) (map (\<lambda>x. np_clip x 0 1) s) = Inr c"
    by (auto simp: new_ctrl_def err_bind_eq_Inr)
  then have "set c \<subseteq> set (map (\<lambda>x. np_clip x 0 1) s)"
    by (cases s) (auto simp: np_assign_def split: if_splits)
  with assms(2) obtain y where "x = np_clip y 0 1" by auto
  then show ?thesis by (simp add: np_clip_unit)
qed

lemma new_ctrl_same_length:
  assumes "length action = length (act d)" and "length (ctrl d) = length (act d)"
  shows "new_ctrl d action = Inr (map2 (\<lambda>a x. np_clip (a + x) 0 1) (act d) action)"
  using assms by (simp add: new_ctrl_def np_add_def np_assign_def map_zip_map2 split_def zip_map_fst_snd)

lemma set_ctrl_sim_data:
  assumes "set_ctrl self action = Inr self'"
  shows "\<exists>c. new_ctrl (sim_data self) action = Inr c \<and> sim_data self' = (sim_data self)\<lparr>ctrl := c\<rparr>"
  using assms
  by (auto simp: set_ctrl_def err_bind_eq_Inr Let_def split: if_splits option.splits)

lemma set_ctrl_original:
  assumes "\<not> prefix ''patch'' (shoulder_variant self)"
  shows "set_ctrl self action =
           err_bind (new_ctrl (sim_data self) action)
             (\<lambda>c. Inr (self\<lparr>sim_data := (sim_data self)\<lparr>ctrl := c\<rparr>\<rparr>))"
  using assms by (simp add: set_ctrl_def Let_def)

lemma set_ctrl_patch_cases:
  assumes "set_ctrl self action = Inr self'" and "prefix ''patch'' (shoulder_variant self)"
  shows "\<exists>c elv i es.
           new_ctrl (sim_data self) action = Inr c \<and>
           np_get (qpos (sim_data self)) (joint_name2id (model self) ''shoulder_elv'') = Inr elv \<and>
           eq_ID_shoulder1_r2 self = Some i \<and>
           set_eq_data (eqs (model self)) i 1 (coupling_coef elv) = Inr es \<and>
           (if shoulder_variant self = ''patch-v2'' then
              \<exists>ang jr.
                np_get (qpos (sim_data self)) (joint_name2id (model self) ''elv_angle'') = Inr ang \<and>
                np_set (jnt_range (model self)) (joint_name2id (model self) ''shoulder_rot'')
                  (patch_v2_range elv ang) = Inr jr \<and>
                self' = self\<lparr>sim_data := (sim_data self)\<lparr>ctrl := c\<rparr>,
                              model := (model self)\<lparr>eqs := es, jnt_range := jr\<rparr>\<rparr>
            else self' = self\<lparr>sim_data := (sim_data self)\<lparr>ctrl := c\<rparr>,
                               model := (model self)\<lparr>eqs := es\<rparr>\<rparr>)"
  using assms
  by (auto simp: set_ctrl_def err_bind_eq_Inr Let_def split: if_splits option.splits)

lemma set_ctrl_patch_success:
  assumes "prefix ''patch'' (shoulder_variant self)"
    and "new_ctrl (sim_data self) action = Inr c"
    and "np_get (qpos (sim_data self)) (joint_name2id (model self) ''shoulder_elv'') = Inr elv"
    and "eq_ID_shoulder1_r2 self = Some i"
    and "i < length (eqs (model self))" and "1 < length (eq_data (eqs (model self) ! i))"
    and "shoulder_variant self = ''patch-v2'' \<longrightarrow>
           (\<exists>ang. np_get (qpos (sim_data self)) (joint_name2id (model self) ''elv_angle'') = Inr ang) \<and>
           (\<exists>k. norm_index (length (jnt_range (model self))) (joint_name2id (model self) ''shoulder_rot'') = Some k)"
  shows "\<exists>self'. set_ctrl self action = Inr self'"
  using assms
  by (auto simp: set_ctrl_def Let_def set_eq_data_def np_set_def)

lemma set_ctrl_patch_model:
  assumes ok: "set_ctrl self action = Inr self'" and p: "prefix ''patch'' (shoulder_variant self)"
  shows "(\<exists>c. sim_data self' = (sim_data self)\<lparr>ctrl := c\<rparr>)
     \<and> self' = self\<lparr>sim_data := sim_data self', model := model self'\<rparr>
     \<and> (\<exists>i v. eq_ID_shoulder1_r2 self = Some i \<and> i < length (eqs (model self)) \<and>
             model self' = (model self)
               \<lparr>eqs := (eqs (model self))
                   [i := (eqs (model self) ! i)\<lparr>eq_data := (eq_data (eqs (model self) ! i))[1 := v]\<rparr>],
                jnt_range := jnt_range (model self')\<rparr>)
     \<and> (shoulder_variant self \<noteq> ''patch-v2'' \<longrightarrow>
                jnt_range (model self') = jnt_range (model self))
     \<and> (shoulder_variant self = ''patch-v2'' \<longrightarrow>
                (\<exists>k r. norm_index (length (jnt_range (model self)))
                          (joint_name2id (model self) ''shoulder_rot'') = Some k \<and>
                       jnt_range (model self') = (jnt_range (model self))[k := r]))"
proof -
  from set_ctrl_patch_cases [OF ok p] obtain c elv i es where
      i: "eq_ID_shoulder1_r2 self = Some i"
    and es: "set_eq_data (eqs (model self)) i 1 (coupling_coef elv) = Inr es"
    and self': "if shoulder_variant self = ''patch-v2'' then
              \<exists>ang jr.
                np_get (qpos (sim_data self)) (joint_name2id (model self) ''elv_angle'') = Inr ang \<and>
                np_set (jnt_range (model self)) (joint_name2id (model self) ''shoulder_rot'')
                  (patch_v2_range elv ang) = Inr jr \<and>
                self' = self\<lparr>sim_data := (sim_data self)\<lparr>ctrl := c\<rparr>,
                              model := (model self)\<lparr>eqs := es, jnt_range := jr\<rparr>\<rparr>
            else self' = self\<lparr>sim_data := (sim_data self)\<lparr>ctrl := c\<rparr>,
                               model := (model self)\<lparr>eqs := es\<rparr>\<rparr>"
    by blast
  from es have il: "i < length (eqs (model self))"
    and es_eq: "es = (eqs (model self))
        [i := (eqs (model self) ! i)\<lparr>eq_data := (eq_data (eqs (model self) ! i))[1 := coupling_coef elv]\<rparr>]"
    by (simp_all add: set_eq_data_Inr)
  show ?thesis
  proof (cases "shoulder_variant self = ''patch-v2''")
    case False
    with self' have s: "self' = self\<lparr>sim_data := (sim_data self)\<lparr>ctrl := c\<rparr>,
                               model := (model self)\<lparr>eqs := es\<rparr>\<rparr>"
      by simp
    have "model self' = (model self)\<lparr>eqs := es, jnt_range := jnt_range (model self')\<rparr>"
      by (simp add: s)
    with False i il es_eq s show ?thesis by auto
  next
    case True
    with self' obtain ang jr where
        jr: "np_set (jnt_range (model self)) (joint_name2id (model self) ''shoulder_rot'')
                  (patch_v2_range elv ang) = Inr jr"
      and s: "self' = self\<lparr>sim_data := (sim_data self)\<lparr>ctrl := c\<rparr>,
                              model := (model self)\<lparr>eqs := es, jnt_range := jr\<rparr>\<rparr>"
      by auto
    from jr obtain k where k: "norm_index (length (jnt_range (model self)))
                          (joint_name2id (model self) ''shoulder_rot'') = Some k"
      and jr_eq: "jr = (jnt_range (model self))[k := patch_v2_range elv ang]"
      by (auto simp: np_set_Inr)
    have m: "model self' = (model self)\<lparr>eqs := es, jnt_range := jnt_range (model self')\<rparr>"
      by (simp add: s)
    have j: "jnt_range (model self') = (jnt_range (model self))[k := patch_v2_range elv ang]"
      by (simp add: s jr_eq)
    have 1: "\<exists>c. sim_data self' = (sim_data self)\<lparr>ctrl := c\<rparr>"
      by (rule exI [of _ c]) (simp add: s)
    have 2: "self' = self\<lparr>sim_data := sim_data self', model := model self'\<rparr>" by (simp add: s)
    have 3: "\<exists>i v. eq_ID_shoulder1_r2 self = Some i \<and> i < length (eqs (model self)) \<and>
             model self' = (model self)
               \<lparr>eqs := (eqs (model self))
                   [i := (eqs (model self) ! i)\<lparr>eq_data := (eq_data (eqs (model self) ! i))[1 := v]\<rparr>],
                jnt_range := jnt_range (model self')\<rparr>"
      using i il m es_eq by auto
    have 4: "\<exists>k r. norm_index (length (jnt_range (model self)))
                          (joint_name2id (model self) ''shoulder_rot'') = Some k \<and>
                       jnt_range (model self') = (jnt_range (model self))[k := r]"
      using k j by blast
    from True 1 2 3 4 show ?thesis by blast
  qed
qed

lemma set_ctrl_joints:
  assumes "set_ctrl self action = Inr self'"
  shows "dependent_joints self' = dependent_joints self
       \<and> independent_joints self' = independent_joints self"
proof (cases "prefix ''patch'' (shoulder_variant self)")
  case False
  with assms show ?thesis
    by (auto simp: set_ctrl_original err_bind_eq_Inr)
next
  case True
  from set_ctrl_patch_cases [OF assms True] show ?thesis
    by (auto split: if_splits)
qed

lemma coupling_coef_continuous: "continuous_on UNIV coupling_coef"
  unfolding coupling_coef_def by (intro continuous_intros) simp

lemma coupling_coef_bounds:
  assumes "0 \<le> e" and "e \<le> pi"
  shows "- 1 \<le> coupling_coef e \<and> coupling_coef e \<le> 1"
proof -
  have "coupling_coef e = 2 * e / pi - 1"
    by (simp add: coupling_coef_def field_simps)
  moreover have "0 \<le> 2 * e / pi" using assms by simp
  moreover have "2 * e / pi \<le> 2" using assms by (simp add: field_simps)
  ultimately show ?thesis by simp
qed

lemma coupling_coef_ends: "coupling_coef 0 = - 1 \<and> coupling_coef pi = 1"
  by (simp add: coupling_coef_def)

lemma np_clip_unit_cases:
  "np_clip x 0 1 = (if x \<le> 0 then 0 else if 1 \<le> x then 1 else x)"
  by (simp add: np_clip_def min_def max_def)

lemma set_ctrl_returns:
  assumes la: "length action = length (act (sim_data self))"
    and lc: "length (ctrl (sim_data self)) = length (act (sim_data self))"
    and r: "prefix ''patch'' (shoulder_variant self) \<longrightarrow> patch_ready self"
  shows "\<exists>self'. set_ctrl self action = Inr self'"
proof (cases "prefix ''patch'' (shoulder_variant self)")
  case False
  then show ?thesis
    using la lc by (simp add: set_ctrl_original new_ctrl_same_length)
next
  case True
  with r have pr: "patch_ready self" by simp
  from pr obtain j where
    "norm_index (length (qpos (sim_data self))) (joint_name2id (model self) ''shoulder_elv'') = Some j"
    unfolding patch_ready_def by auto
  from np_get_success [OF this] obtain elv where
    elv: "np_get (qpos (sim_data self)) (joint_name2id (model self) ''shoulder_elv'') = Inr elv"
    by blast
  from pr obtain i where i: "eq_ID_shoulder1_r2 self = Some i"
    "i < length (eqs (model self))" "1 < length (eq_data (eqs (model self) ! i))"
    unfolding patch_ready_def by (auto split: option.splits)
  have v2: "shoulder_variant self = ''patch-v2'' \<longrightarrow>
           (\<exists>ang. np_get (qpos (sim_data self)) (joint_name2id (model self) ''elv_angle'') = Inr ang) \<and>
           (\<exists>k. norm_index (length (jnt_range (model self))) (joint_name2id (model self) ''shoulder_rot'') = Some k)"
  proof
    assume "shoulder_variant self = ''patch-v2''"
    with pr obtain a k where
      a: "norm_index (length (qpos (sim_data self))) (joint_name2id (model self) ''elv_angle'') = Some a"
      and k: "norm_index (length (jnt_range (model self))) (joint_name2id (model self) ''shoulder_rot'') = Some k"
      unfolding patch_ready_def by auto
    from np_get_success [OF a] k
    show "(\<exists>ang. np_get (qpos (sim_data self)) (joint_name2id (model self) ''elv_angle'') = Inr ang) \<and>
           (\<exists>k. norm_index (length (jnt_range (model self))) (joint_name2id (model self) ''shoulder_rot'') = Some k)"
      by blast
  qed
  from set_ctrl_patch_success [OF True new_ctrl_same_length [OF la lc] elv i v2]
  show ?thesis .
qed

lemma set_ctrl_patch_needs_ready:
  assumes ok: "set_ctrl self action = Inr self'" and p: "prefix ''patch'' (shoulder_variant self)"
  shows "patch_ready self"
proof -
  from set_ctrl_patch_cases [OF ok p] obtain c elv i es where
      elv: "np_get (qpos (sim_data self)) (joint_name2id (model self) ''shoulder_elv'') = Inr elv"
    and i: "eq_ID_shoulder1_r2 self = Some i"
    and es: "set_eq_data (eqs (model self)) i 1 (coupling_coef elv) = Inr es"
    and v2: "if shoulder_variant self = ''patch-v2'' then
              \<exists>ang jr.
                np_get (qpos (sim_data self)) (joint_name2id (model self) ''elv_angle'') = Inr ang \<and>
                np_set (jnt_range (model self)) (joint_name2id (model self) ''shoulder_rot'')
                  (patch_v2_range elv ang) = Inr jr \<and>
                self' = self\<lparr>sim_data := (sim_data self)\<lparr>ctrl := c\<rparr>,
                              model := (model self)\<lparr>eqs := es, jnt_range := jr\<rparr>\<rparr>
            else self' = self\<lparr>sim_data := (sim_data self)\<lparr>ctrl := c\<rparr>,
                               model := (model self)\<lparr>eqs := es\<rparr>\<rparr>"
    by blast
  from elv have 1:
    "norm_index (length (qpos (sim_data self))) (joint_name2id (model self) ''shoulder_elv'') \<noteq> None"
    by (auto simp: np_get_Inr)
  from es have 2: "i < length (eqs (model self)) \<and> 1 < length (eq_data (eqs (model self) ! i))"
    by (auto simp: set_eq_data_Inr)
  have 3: "shoulder_variant self = ''patch-v2'' \<longrightarrow>
        norm_index (length (qpos (sim_data self))) (joint_name2id (model self) ''elv_angle'') \<noteq> None \<and>
        norm_index (length (jnt_range (model self))) (joint_name2id (model self) ''shoulder_rot'') \<noteq> None"
    using v2 by (auto simp: np_get_Inr np_set_def split: option.splits)
  from 1 2 3 i show ?thesis
    unfolding patch_ready_def by simp
qed

text \<open>
  Claim C2. Whenever \<open>set_ctrl\<close> returns, every component of the control it has written
  lies in [0, 1], whatever the magnitude of the action. For an action with one component
  per actuator, the written control has one component per actuator, and component i is
  the sum \<open>act[i] + action[i]\<close> of the current activation and the action when that sum
  lies between 0 and 1, 0 when the sum is at most 0, and 1 when it is at least 1: the
  action is added to the activation, it does not replace it. Such a call returns under
  every shoulder variant, provided that, with a patch, what the patch branch indexes is
  there; with a patch it returns in no other case.
\<close>

theorem set_ctrl_clipped_delta:
  "(set_ctrl self action = Inr self' \<longrightarrow>
      (\<forall>c \<in> set (ctrl (sim_data self')). 0 \<le> c \<and> c \<le> 1) \<and>
      (length action = length (act (sim_data self)) \<and>
       length (ctrl (sim_data self)) = length (act (sim_data self)) \<longrightarrow>
         length (ctrl (sim_data self')) = length (act (sim_data self)) \<and>
         (\<forall>i < length (act (sim_data self)).
            ctrl (sim_data self') ! i =
              (if act (sim_data self) ! i + action ! i \<le> 0 then 0
               else if 1 \<le> act (sim_data self) ! i + action ! i then 1
               else act (sim_data self) ! i + action ! i))))
   \<and> (length action = length (act (sim_data self)) \<and>
      length (ctrl (sim_data self)) = length (act (sim_data self)) \<longrightarrow>
        ((\<exists>self'. set_ctrl self action = Inr self') \<longleftrightarrow>
           (prefix ''patch'' (shoulder_variant self) \<longrightarrow> patch_ready self)))"
proof (intro conjI impI)
  assume ok: "set_ctrl self action = Inr self'"
  then obtain c where c: "new_ctrl (sim_data self) action = Inr c"
    and d: "sim_data self' = (sim_data self)\<lparr>ctrl := c\<rparr>"
    using set_ctrl_sim_data by blast
  show "\<forall>c \<in> set (ctrl (sim_data self')). 0 \<le> c \<and> c \<le> 1"
    using new_ctrl_unit [OF c] d by simp
  assume l: "length action = length (act (sim_data self)) \<and>
       length (ctrl (sim_data self)) = length (act (sim_data self))"
  then have "new_ctrl (sim_data self) action =
      Inr (map2 (\<lambda>a x. np_clip (a + x) 0 1) (act (sim_data self)) action)"
    by (simp add: new_ctrl_same_length)
  with c d have e: "ctrl (sim_data self') =
           map2 (\<lambda>a x. np_clip (a + x) 0 1) (act (sim_data self)) action"
    by simp
  from e l show "length (ctrl (sim_data self')) = length (act (sim_data self))"
    by simp
  show "\<forall>i < length (act (sim_data self)).
            ctrl (sim_data self') ! i =
              (if act (sim_data self) ! i + action ! i \<le> 0 then 0
               else if 1 \<le> act (sim_data self) ! i + action ! i then 1
               else act (sim_data self) ! i + action ! i)"
  proof (intro allI impI)
    fix i assume "i < length (act (sim_data self))"
    with l have "ctrl (sim_data self') ! i
        = np_clip (act (sim_data self) ! i + action ! i) 0 1"
      unfolding e by simp
    then show "ctrl (sim_data self') ! i =
              (if act (sim_data self) ! i + action ! i \<le> 0 then 0
               else if 1 \<le> act (sim_data self) ! i + action ! i then 1
               else act (sim_data self) ! i + action ! i)"
      unfolding np_clip_unit_cases .
  qed
next
  assume l: "length action = length (act (sim_data self)) \<and>
      length (ctrl (sim_data self)) = length (act (sim_data self))"
  show "(\<exists>self'. set_ctrl self action = Inr self') \<longleftrightarrow>
           (prefix ''patch'' (shoulder_variant self) \<longrightarrow> patch_ready self)"
  proof
    assume "\<exists>self'. set_ctrl self action = Inr self'"
    then show "prefix ''patch'' (shoulder_variant self) \<longrightarrow> patch_ready self"
      using set_ctrl_patch_needs_ready by blast
  next
    assume "prefix ''patch'' (shoulder_variant self) \<longrightarrow> patch_ready self"
    with l show "\<exists>self'. set_ctrl self action = Inr self'"
      using set_ctrl_returns [of action self] by blast
  qed
qed

theorem set_ctrl_clipped_delta_witness:
  "set_ctrl (ex_env ''original'') [1/8, -3] =
     Inr ((ex_env ''original'')\<lparr>sim_data := ex_data\<lparr>ctrl := [3/8, 0]\<rparr>\<rparr>)
   \<and> set_ctrl (ex_env ''patch-v2'') [1/8, 1/2] =
     Inr (ex_after_patch_v2\<lparr>sim_data := ex_data\<lparr>ctrl := [3/8, 1]\<rparr>\<rparr>)
   \<and> act (sim_data (ex_env ''original'')) = [1/4, 3/4]
   \<and> act (sim_data (ex_env ''patch-v2'')) = [1/4, 3/4]
   \<and> length (ctrl (sim_data (ex_env ''original''))) = 2
   \<and> length (ctrl (sim_data (ex_env ''patch-v2''))) = 2
   \<and> ctrl (sim_data ((ex_env ''original'')\<lparr>sim_data := ex_data\<lparr>ctrl := [3/8, 0]\<rparr>\<rparr>)) ! 0 = 3/8
   \<and> ctrl (sim_data ((ex_env ''original'')\<lparr>sim_data := ex_data\<lparr>ctrl := [3/8, 0]\<rparr>\<rparr>)) ! 1 = 0
   \<and> ctrl (sim_data (ex_after_patch_v2\<lparr>sim_data := ex_data\<lparr>ctrl := [3/8, 1]\<rparr>\<rparr>)) ! 0 = 3/8
   \<and> ctrl (sim_data (ex_after_patch_v2\<lparr>sim_data := ex_data\<lparr>ctrl := [3/8, 1]\<rparr>\<rparr>)) ! 1 = 1
   \<and> list_all (\<lambda>c. 0 \<le> c \<and> c \<le> 1)
        (ctrl (sim_data ((ex_env ''original'')\<lparr>sim_data := ex_data\<lparr>ctrl := [3/8, 0]\<rparr>\<rparr>)))
   \<and> prefix ''patch'' (shoulder_variant (ex_env ''patch-v2''))
   \<and> patch_ready (ex_env ''patch-v2'')
   \<and> (\<exists>self'. set_ctrl (ex_env ''patch-v2'') [1/8, 1/2] = Inr self')
   \<and> (\<exists>self'. set_ctrl (ex_env ''original'') [1/8, -3] = Inr self')"
proof -
  note T = set_ctrl_clipped_delta [of "ex_env ''original''" "[1/8, -3]"
      "(ex_env ''original'')\<lparr>sim_data := ex_data\<lparr>ctrl := [3/8, 0]\<rparr>\<rparr>"]
  note U = set_ctrl_clipped_delta [of "ex_env ''patch-v2''" "[1/8, 1/2]"
      "ex_after_patch_v2\<lparr>sim_data := ex_data\<lparr>ctrl := [3/8, 1]\<rparr>\<rparr>"]
  have a: "act (sim_data (ex_env ''original'')) = [1/4, 3/4]"
    "act (sim_data (ex_env ''patch-v2'')) = [1/4, 3/4]"
    by (simp_all add: ex_env_def ex_data_def)
  have c: "length (ctrl (sim_data (ex_env ''original''))) = 2"
    "length (ctrl (sim_data (ex_env ''patch-v2''))) = 2"
    by (simp_all add: ex_env_def ex_data_def)
  have p: "prefix ''patch'' (shoulder_variant (ex_env ''patch-v2''))"
    and np: "\<not> prefix ''patch'' (shoulder_variant (ex_env ''original''))"
    by (simp_all add: ex_env_def)
  have lT: "length [1/8, -3 :: real] = length (act (sim_data (ex_env ''original''))) \<and>
       length (ctrl (sim_data (ex_env ''original''))) = length (act (sim_data (ex_env ''original'')))"
    and lU: "length [1/8, 1/2 :: real] = length (act (sim_data (ex_env ''patch-v2''))) \<and>
       length (ctrl (sim_data (ex_env ''patch-v2''))) = length (act (sim_data (ex_env ''patch-v2'')))"
    unfolding a c by simp_all
  note T1 = mp [OF T [THEN conjunct1] ex_set_ctrl_original_delta]
  note U1 = mp [OF U [THEN conjunct1] ex_set_ctrl_patch_v2_delta]
  note T2 = mp [OF T1 [THEN conjunct2] lT, THEN conjunct2]
  note U2 = mp [OF U1 [THEN conjunct2] lU, THEN conjunct2]
  have t0: "ctrl (sim_data ((ex_env ''original'')\<lparr>sim_data := ex_data\<lparr>ctrl := [3/8, 0]\<rparr>\<rparr>)) ! 0 = 3/8"
    using T2 [rule_format, of 0] unfolding a by simp
  have t1: "ctrl (sim_data ((ex_env ''original'')\<lparr>sim_data := ex_data\<lparr>ctrl := [3/8, 0]\<rparr>\<rparr>)) ! 1 = 0"
    using T2 [rule_format, of 1] unfolding a by simp
  have u0: "ctrl (sim_data (ex_after_patch_v2\<lparr>sim_data := ex_data\<lparr>ctrl := [3/8, 1]\<rparr>\<rparr>)) ! 0 = 3/8"
    using U2 [rule_format, of 0] unfolding a by simp
  have u1: "ctrl (sim_data (ex_after_patch_v2\<lparr>sim_data := ex_data\<lparr>ctrl := [3/8, 1]\<rparr>\<rparr>)) ! 1 = 1"
    using U2 [rule_format, of 1] unfolding a by simp
  have b: "list_all (\<lambda>c. 0 \<le> c \<and> c \<le> 1)
        (ctrl (sim_data ((ex_env ''original'')\<lparr>sim_data := ex_data\<lparr>ctrl := [3/8, 0]\<rparr>\<rparr>)))"
    using T1 [THEN conjunct1] unfolding list_all_iff .
  have ru: "\<exists>self'. set_ctrl (ex_env ''patch-v2'') [1/8, 1/2] = Inr self'"
    using mp [OF U [THEN conjunct2] lU] p ex_patch_ready(2) by simp
  have rt: "\<exists>self'. set_ctrl (ex_env ''original'') [1/8, -3] = Inr self'"
    using mp [OF T [THEN conjunct2] lT] np by simp
  show ?thesis
    by (intro conjI ex_set_ctrl_original_delta ex_set_ctrl_patch_v2_delta a c t0 t1 u0 u1 b p
        ex_patch_ready(2) ru rt)
qed

text \<open>
  Claim C4. With a patch variant, patch-v2 included, every call of \<open>set_ctrl\<close> that
  returns has written \<open>-((pi - 2 * elevation) / pi)\<close> into entry 1 of the cached shoulder
  constraint's data, \<open>elevation\<close> being the current position of the joint
  \<open>shoulder_elv\<close>. With a patch variant and an action of one component per actuator,
  the call returns exactly when what the patch branch indexes is there: the joint
  \<open>shoulder_elv\<close> indexes the positions, the cached index points at a constraint with at
  least two data entries and, for patch-v2, the joints \<open>elv_angle\<close> and \<open>shoulder_rot\<close>
  index the positions and the joint ranges. As a function of the elevation the
  coefficient is continuous, lies in [-1, 1] on [0, pi], and is -1 at 0 and 1 at pi.
\<close>

theorem set_ctrl_coupling_coefficient:
  "(prefix ''patch'' (shoulder_variant self) \<and> set_ctrl self action = Inr self' \<longrightarrow>
      (\<exists>i elv. eq_ID_shoulder1_r2 self = Some i \<and>
         np_get (qpos (sim_data self)) (joint_name2id (model self) ''shoulder_elv'') = Inr elv \<and>
         i < length (eqs (model self')) \<and>
         eq_data (eqs (model self') ! i) ! 1 = coupling_coef elv \<and>
         coupling_coef elv = - ((pi - 2 * elv) / pi)))
   \<and> (prefix ''patch'' (shoulder_variant self) \<and>
      length action = length (act (sim_data self)) \<and>
      length (ctrl (sim_data self)) = length (act (sim_data self)) \<longrightarrow>
        ((\<exists>self'. set_ctrl self action = Inr self') \<longleftrightarrow> patch_ready self))
   \<and> continuous_on UNIV coupling_coef
   \<and> (0 \<le> e \<and> e \<le> pi \<longrightarrow> - 1 \<le> coupling_coef e \<and> coupling_coef e \<le> 1)
   \<and> coupling_coef 0 = - 1 \<and> coupling_coef pi = 1"
proof (intro conjI impI)
  assume a: "prefix ''patch'' (shoulder_variant self) \<and> set_ctrl self action = Inr self'"
  then obtain c elv i es where
      elv: "np_get (qpos (sim_data self)) (joint_name2id (model self) ''shoulder_elv'') = Inr elv"
    and i: "eq_ID_shoulder1_r2 self = Some i"
    and es: "set_eq_data (eqs (model self)) i 1 (coupling_coef elv) = Inr es"
    and self': "if shoulder_variant self = ''patch-v2'' then
              \<exists>ang jr.
                np_get (qpos (sim_data self)) (joint_name2id (model self) ''elv_angle'') = Inr ang \<and>
                np_set (jnt_range (model self)) (joint_name2id (model self) ''shoulder_rot'')
                  (patch_v2_range elv ang) = Inr jr \<and>
                self' = self\<lparr>sim_data := (sim_data self)\<lparr>ctrl := c\<rparr>,
                              model := (model self)\<lparr>eqs := es, jnt_range := jr\<rparr>\<rparr>
            else self' = self\<lparr>sim_data := (sim_data self)\<lparr>ctrl := c\<rparr>,
                               model := (model self)\<lparr>eqs := es\<rparr>\<rparr>"
    using set_ctrl_patch_cases [of self action self'] by blast
  from self' have m: "eqs (model self') = es"
    by (auto split: if_splits)
  from es have "i < length es \<and> eq_data (es ! i) ! 1 = coupling_coef elv"
    by (auto simp: set_eq_data_Inr)
  with elv i m
  show "\<exists>i elv. eq_ID_shoulder1_r2 self = Some i \<and>
         np_get (qpos (sim_data self)) (joint_name2id (model self) ''shoulder_elv'') = Inr elv \<and>
         i < length (eqs (model self')) \<and>
         eq_data (eqs (model self') ! i) ! 1 = coupling_coef elv \<and>
         coupling_coef elv = - ((pi - 2 * elv) / pi)"
    by (auto simp: coupling_coef_def)
next
  assume h: "prefix ''patch'' (shoulder_variant self) \<and>
      length action = length (act (sim_data self)) \<and>
      length (ctrl (sim_data self)) = length (act (sim_data self))"
  show "(\<exists>self'. set_ctrl self action = Inr self') \<longleftrightarrow> patch_ready self"
  proof
    assume "\<exists>self'. set_ctrl self action = Inr self'"
    with h show "patch_ready self"
      using set_ctrl_patch_needs_ready by blast
  next
    assume "patch_ready self"
    with h show "\<exists>self'. set_ctrl self action = Inr self'"
      using set_ctrl_returns [of action self] by blast
  qed
next
  show "continuous_on UNIV coupling_coef" by (rule coupling_coef_continuous)
next
  assume "0 \<le> e \<and> e \<le> pi"
  then show "- 1 \<le> coupling_coef e" "coupling_coef e \<le> 1"
    using coupling_coef_bounds [of e] by simp_all
next
  show "coupling_coef 0 = - 1" "coupling_coef pi = 1"
    using coupling_coef_ends by simp_all
qed

theorem set_ctrl_coupling_coefficient_witness:
  "prefix ''patch'' (shoulder_variant (ex_env ''patch-v1''))
   \<and> prefix ''patch'' (shoulder_variant (ex_env ''patch-v2''))
   \<and> set_ctrl (ex_env ''patch-v1'') [0, 0] = Inr ex_after_patch_v1
   \<and> set_ctrl (ex_env ''patch-v2'') [0, 0] = Inr ex_after_patch_v2
   \<and> (\<exists>i elv. eq_ID_shoulder1_r2 (ex_env ''patch-v1'') = Some i \<and>
         np_get (qpos (sim_data (ex_env ''patch-v1'')))
           (joint_name2id (model (ex_env ''patch-v1'')) ''shoulder_elv'') = Inr elv \<and>
         i < length (eqs (model ex_after_patch_v1)) \<and>
         eq_data (eqs (model ex_after_patch_v1) ! i) ! 1 = coupling_coef elv \<and>
         coupling_coef elv = - ((pi - 2 * elv) / pi))
   \<and> (\<exists>i elv. eq_ID_shoulder1_r2 (ex_env ''patch-v2'') = Some i \<and>
         np_get (qpos (sim_data (ex_env ''patch-v2'')))
           (joint_name2id (model (ex_env ''patch-v2'')) ''shoulder_elv'') = Inr elv \<and>
         i < length (eqs (model ex_after_patch_v2)) \<and>
         eq_data (eqs (model ex_after_patch_v2) ! i) ! 1 = coupling_coef elv \<and>
         coupling_coef elv = - ((pi - 2 * elv) / pi))
   \<and> eq_data (eqs (model ex_after_patch_v1) ! 0) ! 1 = - 1
   \<and> eq_data (eqs (model ex_after_patch_v2) ! 0) ! 1 = - 1
   \<and> length [0, 0 :: real] = length (act (sim_data (ex_env ''patch-v1'')))
   \<and> length (ctrl (sim_data (ex_env ''patch-v1''))) = length (act (sim_data (ex_env ''patch-v1'')))
   \<and> length [0, 0 :: real] = length (act (sim_data (ex_env ''patch-v2'')))
   \<and> length (ctrl (sim_data (ex_env ''patch-v2''))) = length (act (sim_data (ex_env ''patch-v2'')))
   \<and> patch_ready (ex_env ''patch-v1'')
   \<and> patch_ready (ex_env ''patch-v2'')
   \<and> (\<exists>self'. set_ctrl (ex_env ''patch-v1'') [0, 0] = Inr self')
   \<and> (\<exists>self'. set_ctrl (ex_env ''patch-v2'') [0, 0] = Inr self')
   \<and> 0 \<le> pi / 2 \<and> pi / 2 \<le> pi
   \<and> - 1 \<le> coupling_coef (pi / 2) \<and> coupling_coef (pi / 2) \<le> 1"
proof -
  note T = set_ctrl_coupling_coefficient
             [of "ex_env ''patch-v1''" "[0, 0]" ex_after_patch_v1 "pi / 2"]
  note U = set_ctrl_coupling_coefficient
             [of "ex_env ''patch-v2''" "[0, 0]" ex_after_patch_v2 "pi / 2"]
  have p: "prefix ''patch'' (shoulder_variant (ex_env ''patch-v1''))"
    and q: "prefix ''patch'' (shoulder_variant (ex_env ''patch-v2''))"
    by (simp_all add: ex_env_def)
  have l: "length [0, 0 :: real] = length (act (sim_data (ex_env ''patch-v1'')))"
    "length (ctrl (sim_data (ex_env ''patch-v1''))) = length (act (sim_data (ex_env ''patch-v1'')))"
    "length [0, 0 :: real] = length (act (sim_data (ex_env ''patch-v2'')))"
    "length (ctrl (sim_data (ex_env ''patch-v2''))) = length (act (sim_data (ex_env ''patch-v2'')))"
    by (simp_all add: ex_env_def ex_data_def)
  have r: "(0::real) \<le> pi / 2" "pi / 2 \<le> pi" by simp_all
  note T1 = mp [OF T [THEN conjunct1] conjI [OF p ex_set_ctrl_patch_v1]]
  note U1 = mp [OF U [THEN conjunct1] conjI [OF q ex_set_ctrl_patch_v2]]
  note T2 = mp [OF T [THEN conjunct2, THEN conjunct1] conjI [OF p conjI [OF l(1) l(2)]]]
  note U2 = mp [OF U [THEN conjunct2, THEN conjunct1] conjI [OF q conjI [OF l(3) l(4)]]]
  note T4 = mp [OF T [THEN conjunct2, THEN conjunct2, THEN conjunct2, THEN conjunct1]
                conjI [OF r(1) r(2)]]
  have rt: "\<exists>self'. set_ctrl (ex_env ''patch-v1'') [0, 0] = Inr self'"
    using T2 ex_patch_ready(1) by simp
  have ru: "\<exists>self'. set_ctrl (ex_env ''patch-v2'') [0, 0] = Inr self'"
    using U2 ex_patch_ready(2) by simp
  have 3: "eq_data (eqs (model ex_after_patch_v1) ! 0) ! 1 = - 1"
    "eq_data (eqs (model ex_after_patch_v2) ! 0) ! 1 = - 1"
    by (simp_all add: ex_after_patch_v1_def ex_after_patch_v2_def)
  show ?thesis
    by (intro conjI p q ex_set_ctrl_patch_v1 ex_set_ctrl_patch_v2 T1 U1 3 l ex_patch_ready rt ru r
        T4 [THEN conjunct1] T4 [THEN conjunct2])
qed

text \<open>
  Claim C10. A call of \<open>set_ctrl\<close> that returns has changed nothing of the simulation
  data but the control vector (positions, velocities, accelerations and activations
  are as before) and no attribute of the environment but the data and the model.
  Without a patch the model is unchanged too. With a patch, the model differs only in
  entry 1 of the cached constraint's data and, for patch-v2 alone, in the range of the
  joint \<open>shoulder_rot\<close>.
\<close>

theorem set_ctrl_frame:
  "set_ctrl self action = Inr self' \<longrightarrow>
     (\<exists>c. sim_data self' = (sim_data self)\<lparr>ctrl := c\<rparr>)
     \<and> self' = self\<lparr>sim_data := sim_data self', model := model self'\<rparr>
     \<and> (\<not> prefix ''patch'' (shoulder_variant self) \<longrightarrow> model self' = model self)
     \<and> (prefix ''patch'' (shoulder_variant self) \<longrightarrow>
          (\<exists>i v. eq_ID_shoulder1_r2 self = Some i \<and> i < length (eqs (model self)) \<and>
             model self' = (model self)
               \<lparr>eqs := (eqs (model self))
                   [i := (eqs (model self) ! i)\<lparr>eq_data := (eq_data (eqs (model self) ! i))[1 := v]\<rparr>],
                jnt_range := jnt_range (model self')\<rparr>)
          \<and> (shoulder_variant self \<noteq> ''patch-v2'' \<longrightarrow>
                jnt_range (model self') = jnt_range (model self))
          \<and> (shoulder_variant self = ''patch-v2'' \<longrightarrow>
                (\<exists>k r. norm_index (length (jnt_range (model self)))
                          (joint_name2id (model self) ''shoulder_rot'') = Some k \<and>
                       jnt_range (model self') = (jnt_range (model self))[k := r])))"
proof (cases "prefix ''patch'' (shoulder_variant self)")
  case False
  then show ?thesis
    by (auto simp: set_ctrl_original err_bind_eq_Inr)
next
  case True
  show ?thesis
  proof
    assume "set_ctrl self action = Inr self'"
    from set_ctrl_patch_model [OF this True] True
    show "(\<exists>c. sim_data self' = (sim_data self)\<lparr>ctrl := c\<rparr>)
     \<and> self' = self\<lparr>sim_data := sim_data self', model := model self'\<rparr>
     \<and> (\<not> prefix ''patch'' (shoulder_variant self) \<longrightarrow> model self' = model self)
     \<and> (prefix ''patch'' (shoulder_variant self) \<longrightarrow>
          (\<exists>i v. eq_ID_shoulder1_r2 self = Some i \<and> i < length (eqs (model self)) \<and>
             model self' = (model self)
               \<lparr>eqs := (eqs (model self))
                   [i := (eqs (model self) ! i)\<lparr>eq_data := (eq_data (eqs (model self) ! i))[1 := v]\<rparr>],
                jnt_range := jnt_range (model self')\<rparr>)
          \<and> (shoulder_variant self \<noteq> ''patch-v2'' \<longrightarrow>
                jnt_range (model self') = jnt_range (model self))
          \<and> (shoulder_variant self = ''patch-v2'' \<longrightarrow>
                (\<exists>k r. norm_index (length (jnt_range (model self)))
                          (joint_name2id (model self) ''shoulder_rot'') = Some k \<and>
                       jnt_range (model self') = (jnt_range (model self))[k := r])))"
      by blast
  qed
qed

theorem set_ctrl_frame_witness:
  "set_ctrl (ex_env ''patch-v2'') [0, 0] = Inr ex_after_patch_v2
   \<and> prefix ''patch'' (shoulder_variant (ex_env ''patch-v2''))
   \<and> shoulder_variant (ex_env ''patch-v2'') = ''patch-v2''
   \<and> (\<exists>c. sim_data ex_after_patch_v2 = (sim_data (ex_env ''patch-v2''))\<lparr>ctrl := c\<rparr>)
   \<and> (\<exists>k r. norm_index (length (jnt_range (model (ex_env ''patch-v2''))))
               (joint_name2id (model (ex_env ''patch-v2'')) ''shoulder_rot'') = Some k \<and>
             jnt_range (model ex_after_patch_v2)
               = (jnt_range (model (ex_env ''patch-v2'')))[k := r])"
proof -
  note T = set_ctrl_frame [of "ex_env ''patch-v2''" "[0, 0]" ex_after_patch_v2]
  have p: "prefix ''patch'' (shoulder_variant (ex_env ''patch-v2''))"
    and q: "shoulder_variant (ex_env ''patch-v2'') = ''patch-v2''"
    by (simp_all add: ex_env_def)
  from T ex_set_ctrl_patch_v2 p q show ?thesis by blast
qed

section \<open>Properties of get_observation\<close>

lemma get_observation_Inr:
  assumes "get_observation self = Inr obs"
  shows "\<exists>jr q qv qa.
           np_take (jnt_range (model self)) (independent_joints self) = Inr jr \<and>
           np_take (qpos (sim_data self)) (independent_joints self) = Inr q \<and>
           np_take (qvel (sim_data self)) (independent_joints self) = Inr qv \<and>
           np_take (qacc (sim_data self)) (independent_joints self) = Inr qa \<and>
           proprioception obs =
             map2 qpos_normalise q jr @ map Fin qv @ map Fin qa
             @ map Fin [fst (geom_xpos (sim_data self) fingertip),
                        fst (snd (geom_xpos (sim_data self) fingertip)),
                        snd (snd (geom_xpos (sim_data self) fingertip))]
             @ map Fin (map act_normalise (act (sim_data self))) \<and>
           visual obs =
             (if render_observations self
              then Some (visual_of (sim_render self (model self) (sim_data self)
                          (ocular_image_width self) (ocular_image_height self)))
              else None)"
  using assms
  by (auto simp: get_observation_def err_bind_eq_Inr Let_def split_def)

lemma get_observation_length:
  assumes "get_observation self = Inr obs"
  shows "length (proprioception obs) =
           3 * length (independent_joints self) + 3 + length (act (sim_data self))"
proof -
  from get_observation_Inr [OF assms] obtain jr q qv qa where
      jr: "np_take (jnt_range (model self)) (independent_joints self) = Inr jr"
    and q: "np_take (qpos (sim_data self)) (independent_joints self) = Inr q"
    and qv: "np_take (qvel (sim_data self)) (independent_joints self) = Inr qv"
    and qa: "np_take (qacc (sim_data self)) (independent_joints self) = Inr qa"
    and p: "proprioception obs =
             map2 qpos_normalise q jr @ map Fin qv @ map Fin qa
             @ map Fin [fst (geom_xpos (sim_data self) fingertip),
                        fst (snd (geom_xpos (sim_data self) fingertip)),
                        snd (snd (geom_xpos (sim_data self) fingertip))]
             @ map Fin (map act_normalise (act (sim_data self)))"
    by blast
  from np_take_Inr [OF jr] np_take_Inr [OF q] np_take_Inr [OF qv] np_take_Inr [OF qa]
  have "length jr = length (independent_joints self)" "length q = length (independent_joints self)"
    "length qv = length (independent_joints self)" "length qa = length (independent_joints self)"
    by simp_all
  with p show ?thesis by simp
qed

lemma get_observation_components:
  assumes ok: "get_observation self = Inr obs" and k: "k < length (independent_joints self)"
  shows "\<exists>q lo hi v a.
           np_get (qpos (sim_data self)) (independent_joints self ! k) = Inr q \<and>
           np_get (jnt_range (model self)) (independent_joints self ! k) = Inr (lo, hi) \<and>
           np_get (qvel (sim_data self)) (independent_joints self ! k) = Inr v \<and>
           np_get (qacc (sim_data self)) (independent_joints self ! k) = Inr a \<and>
           proprioception obs ! k = qpos_normalise q (lo, hi) \<and>
           proprioception obs ! (length (independent_joints self) + k) = Fin v \<and>
           proprioception obs ! (2 * length (independent_joints self) + k) = Fin a"
proof -
  let ?n = "length (independent_joints self)"
  from get_observation_Inr [OF ok] obtain jr q qv qa where
      jr: "np_take (jnt_range (model self)) (independent_joints self) = Inr jr"
    and q: "np_take (qpos (sim_data self)) (independent_joints self) = Inr q"
    and qv: "np_take (qvel (sim_data self)) (independent_joints self) = Inr qv"
    and qa: "np_take (qacc (sim_data self)) (independent_joints self) = Inr qa"
    and p: "proprioception obs =
             map2 qpos_normalise q jr @ map Fin qv @ map Fin qa
             @ map Fin [fst (geom_xpos (sim_data self) fingertip),
                        fst (snd (geom_xpos (sim_data self) fingertip)),
                        snd (snd (geom_xpos (sim_data self) fingertip))]
             @ map Fin (map act_normalise (act (sim_data self)))"
    by blast
  from np_take_Inr [OF jr] np_take_Inr [OF q] np_take_Inr [OF qv] np_take_Inr [OF qa] k
  have len: "length jr = ?n" "length q = ?n" "length qv = ?n" "length qa = ?n"
    and gets: "np_get (jnt_range (model self)) (independent_joints self ! k) = Inr (jr ! k)"
      "np_get (qpos (sim_data self)) (independent_joints self ! k) = Inr (q ! k)"
      "np_get (qvel (sim_data self)) (independent_joints self ! k) = Inr (qv ! k)"
      "np_get (qacc (sim_data self)) (independent_joints self ! k) = Inr (qa ! k)"
    by simp_all
  have p0: "proprioception obs ! k = qpos_normalise (q ! k) (jr ! k)"
    using k len by (simp add: p nth_append)
  have p1: "proprioception obs ! (?n + k) = Fin (qv ! k)"
    using k len by (simp add: p nth_append)
  have p2: "proprioception obs ! (2 * ?n + k) = Fin (qa ! k)"
    using k len by (simp add: p nth_append)
  obtain lo hi where r: "jr ! k = (lo, hi)" by (cases "jr ! k")
  from gets p0 p1 p2 r show ?thesis by auto
qed

lemma get_observation_success:
  assumes "\<forall>i \<in> set (independent_joints self).
             (\<exists>j. norm_index (length (jnt_range (model self))) i = Some j) \<and>
             (\<exists>j. norm_index (length (qpos (sim_data self))) i = Some j) \<and>
             (\<exists>j. norm_index (length (qvel (sim_data self))) i = Some j) \<and>
             (\<exists>j. norm_index (length (qacc (sim_data self))) i = Some j)"
  shows "\<exists>obs. get_observation self = Inr obs"
proof -
  from assms have
    "\<forall>i \<in> set (independent_joints self). \<exists>x. np_get (jnt_range (model self)) i = Inr x"
    "\<forall>i \<in> set (independent_joints self). \<exists>x. np_get (qpos (sim_data self)) i = Inr x"
    "\<forall>i \<in> set (independent_joints self). \<exists>x. np_get (qvel (sim_data self)) i = Inr x"
    "\<forall>i \<in> set (independent_joints self). \<exists>x. np_get (qacc (sim_data self)) i = Inr x"
    using np_get_success by blast+
  then obtain jr q qv qa where
    "np_take (jnt_range (model self)) (independent_joints self) = Inr jr"
    "np_take (qpos (sim_data self)) (independent_joints self) = Inr q"
    "np_take (qvel (sim_data self)) (independent_joints self) = Inr qv"
    "np_take (qacc (sim_data self)) (independent_joints self) = Inr qa"
    using np_take_success by metis
  then show ?thesis
    by (simp add: get_observation_def Let_def split_def)
qed

lemma get_observation_visual:
  assumes "get_observation self = Inr obs"
  shows "visual obs = None \<longleftrightarrow> \<not> render_observations self"
  using get_observation_Inr [OF assms] by auto

lemma qpos_normalise_value:
  "qpos_normalise q (lo, hi) =
     (if hi = lo then NonFinite else Fin (((q - lo / (hi - lo)) - 0.5) * 2))"
  by (simp add: qpos_normalise_def fdiv_def)

lemma qpos_normalise_vs_unit_interval:
  assumes "hi \<noteq> lo"
  shows "qpos_normalise q (lo, hi) = Fin (unit_interval_rescale q (lo, hi))
           \<longleftrightarrow> q = 0 \<or> hi - lo = 1"
proof -
  from assms have nz: "hi - lo \<noteq> 0" by simp
  have n: "qpos_normalise q (lo, hi) = Fin (((q - lo / (hi - lo)) - 0.5) * 2)"
    using assms by (simp add: qpos_normalise_value)
  have u: "unit_interval_rescale q (lo, hi) = ((q - lo) / (hi - lo) - 0.5) * 2"
    by (simp add: unit_interval_rescale_def)
  have "qpos_normalise q (lo, hi) = Fin (unit_interval_rescale q (lo, hi))
          \<longleftrightarrow> q - lo / (hi - lo) = (q - lo) / (hi - lo)"
    unfolding n u fval.inject by (rule centre_inj)
  also have "\<dots> \<longleftrightarrow> q * (hi - lo) - lo = q - lo"
    using nz by (simp add: field_simps)
  also have "\<dots> \<longleftrightarrow> q * (hi - lo - 1) = 0"
    by (simp add: algebra_simps)
  also have "\<dots> \<longleftrightarrow> q = 0 \<or> hi - lo = 1"
    by auto
  finally show ?thesis .
qed

lemma act_normalise_image: "act_normalise ` {0..1} = {-1..1}"
proof (rule set_eqI, rule iffI)
  fix y assume "y \<in> act_normalise ` {0..1}"
  then show "y \<in> {-1..1}" by (auto simp: act_normalise_def)
next
  fix y :: real assume y: "y \<in> {-1..1}"
  have "y = act_normalise (y / 2 + 0.5)" by (simp add: act_normalise_def)
  moreover from y have "y / 2 + 0.5 \<in> {0..1}" by simp
  ultimately show "y \<in> act_normalise ` {0..1}" by (rule image_eqI)
qed

text \<open>
  Claim C1. \<open>get_observation\<close> returns whenever every independent joint indexes the joint
  ranges, positions, velocities and accelerations, whether or not images are rendered.
  In the proprioception vector it returns, the entry of the k-th independent joint, with
  range [low, high] and position q, is \<open>((q - low / (high - low)) - 0.5) * 2\<close>, the
  division applying to \<open>low\<close> alone (a non-finite float when the range is empty); the
  entries of its velocity and acceleration, one and two blocks further, are the raw
  values. This is not the unit-interval rescaling
  \<open>((q - low) / (high - low) - 0.5) * 2\<close>: on a non-empty range the two agree only when
  q = 0 or the range has width 1.
\<close>

theorem get_observation_qpos_formula:
  "(get_observation self = Inr obs \<and> k < length (independent_joints self) \<longrightarrow>
      (\<exists>q lo hi v a.
         np_get (qpos (sim_data self)) (independent_joints self ! k) = Inr q \<and>
         np_get (jnt_range (model self)) (independent_joints self ! k) = Inr (lo, hi) \<and>
         np_get (qvel (sim_data self)) (independent_joints self ! k) = Inr v \<and>
         np_get (qacc (sim_data self)) (independent_joints self ! k) = Inr a \<and>
         proprioception obs ! k =
           (if hi = lo then NonFinite else Fin (((q - lo / (hi - lo)) - 0.5) * 2)) \<and>
         proprioception obs ! (length (independent_joints self) + k) = Fin v \<and>
         proprioception obs ! (2 * length (independent_joints self) + k) = Fin a))
   \<and> (hi' \<noteq> lo' \<longrightarrow>
        (qpos_normalise q' (lo', hi') = Fin (unit_interval_rescale q' (lo', hi'))
           \<longleftrightarrow> q' = 0 \<or> hi' - lo' = 1))
   \<and> ((\<forall>i \<in> set (independent_joints self).
          (\<exists>j. norm_index (length (jnt_range (model self))) i = Some j) \<and>
          (\<exists>j. norm_index (length (qpos (sim_data self))) i = Some j) \<and>
          (\<exists>j. norm_index (length (qvel (sim_data self))) i = Some j) \<and>
          (\<exists>j. norm_index (length (qacc (sim_data self))) i = Some j)) \<longrightarrow>
        (\<exists>obs. get_observation self = Inr obs))"
proof (intro conjI impI)
  assume "get_observation self = Inr obs \<and> k < length (independent_joints self)"
  then have ok: "get_observation self = Inr obs" and k: "k < length (independent_joints self)"
    by simp_all
  from get_observation_components [OF ok k] obtain q lo hi v a where
    "np_get (qpos (sim_data self)) (independent_joints self ! k) = Inr q"
    "np_get (jnt_range (model self)) (independent_joints self ! k) = Inr (lo, hi)"
    "np_get (qvel (sim_data self)) (independent_joints self ! k) = Inr v"
    "np_get (qacc (sim_data self)) (independent_joints self ! k) = Inr a"
    "proprioception obs ! k = qpos_normalise q (lo, hi)"
    "proprioception obs ! (length (independent_joints self) + k) = Fin v"
    "proprioception obs ! (2 * length (independent_joints self) + k) = Fin a"
    by blast
  then show "\<exists>q lo hi v a.
         np_get (qpos (sim_data self)) (independent_joints self ! k) = Inr q \<and>
         np_get (jnt_range (model self)) (independent_joints self ! k) = Inr (lo, hi) \<and>
         np_get (qvel (sim_data self)) (independent_joints self ! k) = Inr v \<and>
         np_get (qacc (sim_data self)) (independent_joints self ! k) = Inr a \<and>
         proprioception obs ! k =
           (if hi = lo then NonFinite else Fin (((q - lo / (hi - lo)) - 0.5) * 2)) \<and>
         proprioception obs ! (length (independent_joints self) + k) = Fin v \<and>
         proprioception obs ! (2 * length (independent_joints self) + k) = Fin a"
    unfolding qpos_normalise_value by blast
next
  assume "hi' \<noteq> lo'"
  then show "qpos_normalise q' (lo', hi') = Fin (unit_interval_rescale q' (lo', hi'))
           \<longleftrightarrow> q' = 0 \<or> hi' - lo' = 1"
    by (rule qpos_normalise_vs_unit_interval)
next
  assume "\<forall>i \<in> set (independent_joints self).
          (\<exists>j. norm_index (length (jnt_range (model self))) i = Some j) \<and>
          (\<exists>j. norm_index (length (qpos (sim_data self))) i = Some j) \<and>
          (\<exists>j. norm_index (length (qvel (sim_data self))) i = Some j) \<and>
          (\<exists>j. norm_index (length (qacc (sim_data self))) i = Some j)"
  then show "\<exists>obs. get_observation self = Inr obs"
    by (rule get_observation_success)
qed

theorem get_observation_qpos_formula_witness:
  "get_observation (ex_env ''original'') = Inr ex_obs
   \<and> (0::nat) < length (independent_joints (ex_env ''original''))
   \<and> np_get (qpos (sim_data (ex_env ''original''))) (independent_joints (ex_env ''original'') ! 0)
        = Inr (1/100)
   \<and> np_get (jnt_range (model (ex_env ''original''))) (independent_joints (ex_env ''original'') ! 0)
        = Inr (- 1, 1)
   \<and> proprioception ex_obs ! 0 = Fin (((1/100 - (- 1) / (1 - (- 1))) - 0.5) * 2)
   \<and> proprioception ex_obs ! (length (independent_joints (ex_env ''original'')) + 0) = Fin 0
   \<and> (1::real) \<noteq> - 1
   \<and> qpos_normalise (1/100) (- 1, 1) \<noteq> Fin (unit_interval_rescale (1/100) (- 1, 1))
   \<and> render_observations ((ex_env ''original'')\<lparr>render_observations := True\<rparr>)
   \<and> list_all (\<lambda>i. norm_index 5 i \<noteq> None)
        (independent_joints ((ex_env ''original'')\<lparr>render_observations := True\<rparr>))
   \<and> length (jnt_range (model ((ex_env ''original'')\<lparr>render_observations := True\<rparr>))) = 5
   \<and> length (qpos (sim_data ((ex_env ''original'')\<lparr>render_observations := True\<rparr>))) = 5
   \<and> length (qvel (sim_data ((ex_env ''original'')\<lparr>render_observations := True\<rparr>))) = 5
   \<and> length (qacc (sim_data ((ex_env ''original'')\<lparr>render_observations := True\<rparr>))) = 5
   \<and> (\<exists>obs. get_observation ((ex_env ''original'')\<lparr>render_observations := True\<rparr>) = Inr obs)
   \<and> (\<exists>obs. get_observation (ex_env ''original'') = Inr obs)"
proof -
  note T = get_observation_qpos_formula
             [of "ex_env ''original''" ex_obs 0 1 "- 1" "1/100"]
  note U = get_observation_qpos_formula
             [of "(ex_env ''original'')\<lparr>render_observations := True\<rparr>" ex_obs 0 1 "- 1" "1/100"]
  have k: "(0::nat) < length (independent_joints (ex_env ''original''))"
    by (simp add: ex_env_def)
  have g: "np_get (qpos (sim_data (ex_env ''original''))) (independent_joints (ex_env ''original'') ! 0)
        = Inr (1/100)"
    "np_get (jnt_range (model (ex_env ''original''))) (independent_joints (ex_env ''original'') ! 0)
        = Inr (- 1, 1)"
    "np_get (qvel (sim_data (ex_env ''original''))) (independent_joints (ex_env ''original'') ! 0)
        = Inr 0"
    by (simp_all add: ex_env_def ex_data_def ex_model_def np_get_def norm_index_def)
  from mp [OF T [THEN conjunct1] conjI [OF ex_get_observation k]] obtain q lo hi v a where
    "np_get (qpos (sim_data (ex_env ''original''))) (independent_joints (ex_env ''original'') ! 0) = Inr q"
    "np_get (jnt_range (model (ex_env ''original''))) (independent_joints (ex_env ''original'') ! 0) = Inr (lo, hi)"
    "np_get (qvel (sim_data (ex_env ''original''))) (independent_joints (ex_env ''original'') ! 0) = Inr v"
    "proprioception ex_obs ! 0 = (if hi = lo then NonFinite else Fin (((q - lo / (hi - lo)) - 0.5) * 2))"
    "proprioception ex_obs ! (length (independent_joints (ex_env ''original'')) + 0) = Fin v"
    by blast
  with g have p: "proprioception ex_obs ! 0 = Fin (((1/100 - (- 1) / (1 - (- 1))) - 0.5) * 2)"
    "proprioception ex_obs ! (length (independent_joints (ex_env ''original'')) + 0) = Fin 0"
    by simp_all
  have ne: "(1::real) \<noteq> - 1" by simp
  have c: "\<not> ((1/100 :: real) = 0 \<or> (1::real) - (- 1) = 1)" by simp
  from mp [OF T [THEN conjunct2, THEN conjunct1] ne] c
  have d: "qpos_normalise (1/100) (- 1, 1) \<noteq> Fin (unit_interval_rescale (1/100) (- 1, 1))"
    by blast
  have e: "render_observations ((ex_env ''original'')\<lparr>render_observations := True\<rparr>)"
    "list_all (\<lambda>i. norm_index 5 i \<noteq> None)
        (independent_joints ((ex_env ''original'')\<lparr>render_observations := True\<rparr>))"
    "length (jnt_range (model ((ex_env ''original'')\<lparr>render_observations := True\<rparr>))) = 5"
    "length (qpos (sim_data ((ex_env ''original'')\<lparr>render_observations := True\<rparr>))) = 5"
    "length (qvel (sim_data ((ex_env ''original'')\<lparr>render_observations := True\<rparr>))) = 5"
    "length (qacc (sim_data ((ex_env ''original'')\<lparr>render_observations := True\<rparr>))) = 5"
    by (simp_all add: ex_env_def ex_data_def ex_model_def norm_index_def)
  have f: "list_all (\<lambda>i. norm_index 5 i \<noteq> None) (independent_joints (ex_env ''original''))"
    "length (jnt_range (model (ex_env ''original''))) = 5"
    "length (qpos (sim_data (ex_env ''original''))) = 5"
    "length (qvel (sim_data (ex_env ''original''))) = 5"
    "length (qacc (sim_data (ex_env ''original''))) = 5"
    by (simp_all add: ex_env_def ex_data_def ex_model_def norm_index_def)
  have hu: "\<forall>i \<in> set (independent_joints ((ex_env ''original'')\<lparr>render_observations := True\<rparr>)).
          (\<exists>j. norm_index (length (jnt_range (model ((ex_env ''original'')\<lparr>render_observations := True\<rparr>)))) i = Some j) \<and>
          (\<exists>j. norm_index (length (qpos (sim_data ((ex_env ''original'')\<lparr>render_observations := True\<rparr>)))) i = Some j) \<and>
          (\<exists>j. norm_index (length (qvel (sim_data ((ex_env ''original'')\<lparr>render_observations := True\<rparr>)))) i = Some j) \<and>
          (\<exists>j. norm_index (length (qacc (sim_data ((ex_env ''original'')\<lparr>render_observations := True\<rparr>)))) i = Some j)"
    using e(2) unfolding e(3-6) list_all_iff by auto
  have ht: "\<forall>i \<in> set (independent_joints (ex_env ''original'')).
          (\<exists>j. norm_index (length (jnt_range (model (ex_env ''original'')))) i = Some j) \<and>
          (\<exists>j. norm_index (length (qpos (sim_data (ex_env ''original'')))) i = Some j) \<and>
          (\<exists>j. norm_index (length (qvel (sim_data (ex_env ''original'')))) i = Some j) \<and>
          (\<exists>j. norm_index (length (qacc (sim_data (ex_env ''original'')))) i = Some j)"
    using f(1) unfolding f(2-5) list_all_iff by auto
  note ru = mp [OF U [THEN conjunct2, THEN conjunct2] hu]
  note rt = mp [OF T [THEN conjunct2, THEN conjunct2] ht]
  show ?thesis
    by (intro conjI ex_get_observation k g(1) g(2) p ne d e ru rt)
qed

text \<open>
  Claim C9. The activation normalisation \<open>(a - 0.5) * 2\<close> of \<open>get_observation\<close> maps the
  interval [0, 1] one-to-one onto [-1, 1], and it and the map \<open>b / 2 + 0.5\<close> undo each
  other: normalising a denormalised value gives the value back, for every real number
  and so for every one in [0, 1].
\<close>

theorem act_normalise_bijection:
  "bij_betw act_normalise {0..1} {-1..1}
   \<and> act_normalise (act_denormalise a) = a
   \<and> act_denormalise (act_normalise a) = a"
proof -
  have "inj_on act_normalise {0..1}"
    by (rule inj_onI) (simp add: act_normalise_def)
  then have "bij_betw act_normalise {0..1} {-1..1}"
    by (simp add: bij_betw_def act_normalise_image)
  then show ?thesis
    by (simp add: act_normalise_def act_denormalise_def field_simps)
qed

section \<open>The joint partition\<close>

lemma dependent_joints_set:
  "set (compute_dependent_joints m) = eq_obj1id ` {e \<in> set (eqs m). eq_active e \<noteq> 0}"
  by (auto simp: compute_dependent_joints_def)

lemma dependent_joints_distinct:
  "distinct (compute_dependent_joints m) \<and> sorted (compute_dependent_joints m)"
  by (simp add: compute_dependent_joints_def)

lemma independent_joints_set:
  assumes "lists_each_once list_of_set"
  shows "set (compute_independent_joints list_of_set m)
           = {0..<int (njnt m)} - set (compute_dependent_joints m)"
proof -
  let ?xs = "filter (\<lambda>j. j \<notin> set (compute_dependent_joints m)) (map int [0..<njnt m])"
  have "distinct ?xs" by (simp add: distinct_map)
  with assms have 1: "set (list_of_set ?xs) = set ?xs"
    unfolding lists_each_once_def by blast
  have 2: "set ?xs = {0..<int (njnt m)} - set (compute_dependent_joints m)"
    by (auto simp: image_int_atLeastLessThan)
  show ?thesis
    unfolding compute_independent_joints_def 1 2 ..
qed

lemma independent_joints_distinct:
  assumes "lists_each_once list_of_set"
  shows "distinct (compute_independent_joints list_of_set m)"
proof -
  let ?xs = "filter (\<lambda>j. j \<notin> set (compute_dependent_joints m)) (map int [0..<njnt m])"
  have "distinct ?xs" by (simp add: distinct_map)
  with assms have "distinct (list_of_set ?xs)"
    unfolding lists_each_once_def by blast
  then show ?thesis
    unfolding compute_independent_joints_def .
qed

lemma joints_disjoint:
  assumes "lists_each_once list_of_set"
  shows "set (compute_independent_joints list_of_set m) \<inter> set (compute_dependent_joints m) = {}"
  unfolding independent_joints_set [OF assms] by blast

lemma joints_cover:
  assumes "lists_each_once list_of_set"
  shows "{0..<int (njnt m)}
           \<subseteq> set (compute_independent_joints list_of_set m) \<union> set (compute_dependent_joints m)"
  unfolding independent_joints_set [OF assms] by blast

lemma joints_union_exact:
  assumes "lists_each_once list_of_set"
  shows "set (compute_independent_joints list_of_set m) \<union> set (compute_dependent_joints m)
           = {0..<int (njnt m)}
     \<longleftrightarrow> (\<forall>e \<in> set (eqs m). eq_active e \<noteq> 0 \<longrightarrow> 0 \<le> eq_obj1id e \<and> eq_obj1id e < int (njnt m))"
proof -
  have "set (compute_independent_joints list_of_set m) \<union> set (compute_dependent_joints m)
          = {0..<int (njnt m)}
          \<longleftrightarrow> set (compute_dependent_joints m) \<subseteq> {0..<int (njnt m)}"
    unfolding independent_joints_set [OF assms] by blast
  also have "\<dots> \<longleftrightarrow> (\<forall>e \<in> set (eqs m). eq_active e \<noteq> 0 \<longrightarrow> 0 \<le> eq_obj1id e \<and> eq_obj1id e < int (njnt m))"
    unfolding dependent_joints_set by auto
  finally show ?thesis .
qed

lemma init_env_joints:
  assumes "init_env variant m d ext kw = Inr env"
  shows "dependent_joints env = compute_dependent_joints m
       \<and> independent_joints env = compute_independent_joints (ext_list_of_set ext) m"
  using assms
  by (auto simp: init_env_def err_bind_eq_Inr Let_def split: if_splits)

section \<open>Properties of reset\<close>

lemma reset_state_Inr:
  assumes "reset_state self = Inr self1"
  shows "\<exists>qp qv a.
     np_put (replicate (length (qpos (sim_reset self (model self) (sim_data self)))) 0)
       (independent_joints self)
       (map (\<lambda>k. - 0.05 + (0.05 - - 0.05) * rng self k) [0..<length (independent_joints self)]) = Inr qp \<and>
     np_put (replicate (length (qvel (sim_reset self (model self) (sim_data self)))) 0)
       (independent_joints self)
       (map (\<lambda>k. - 0.05 + (0.05 - - 0.05) * rng self (length (independent_joints self) + k))
          [0..<length (independent_joints self)]) = Inr qv \<and>
     np_assign (act (sim_reset self (model self) (sim_data self)))
       (map (\<lambda>k. 0 + (1 - 0) * rng self (2 * length (independent_joints self) + k))
          [0..<na (model self)]) = Inr a \<and>
     self1 = self\<lparr> sim_data := (sim_reset self (model self) (sim_data self))\<lparr>qpos := qp, qvel := qv, act := a\<rparr>,
                   rng := rng_drop (2 * length (independent_joints self) + na (model self)) (rng self),
                   effort_term := effort_reset self (effort_term self) \<rparr>"
proof -
  have a: "\<And>n k. rng_drop n (rng self) k = rng self (n + k)"
    by (simp add: rng_drop_def)
  have b: "\<And>n k. rng_drop n (rng_drop n (rng self)) k = rng self (2 * n + k)"
    by (simp add: rng_drop_def mult_2 add.assoc)
  have c: "\<And>n m. rng_drop m (rng_drop n (rng_drop n (rng self))) = rng_drop (2 * n + m) (rng self)"
    by (simp add: rng_drop_drop mult_2)
  from assms show ?thesis
    unfolding reset_state_def Let_def rng_uniform_replicate split_conv a b c err_bind_eq_Inr
    by blast
qed

lemma reset_state_frame:
  assumes "reset_state self = Inr self1"
  shows "effort_term self1 = effort_reset self (effort_term self)
     \<and> self1 = self\<lparr>sim_data := sim_data self1, rng := rng self1, effort_term := effort_term self1\<rparr>
     \<and> rng self1 = rng_drop (2 * length (independent_joints self) + na (model self)) (rng self)
     \<and> sim_data self1 = (sim_reset self (model self) (sim_data self))
          \<lparr>qpos := qpos (sim_data self1), qvel := qvel (sim_data self1), act := act (sim_data self1)\<rparr>
     \<and> length (qpos (sim_data self1)) = length (qpos (sim_reset self (model self) (sim_data self)))
     \<and> length (qvel (sim_data self1)) = length (qvel (sim_reset self (model self) (sim_data self)))
     \<and> length (act (sim_data self1)) = length (act (sim_reset self (model self) (sim_data self)))"
proof -
  from reset_state_Inr [OF assms] obtain qp qv a where
      qp: "np_put (replicate (length (qpos (sim_reset self (model self) (sim_data self)))) 0)
       (independent_joints self)
       (map (\<lambda>k. - 0.05 + (0.05 - - 0.05) * rng self k) [0..<length (independent_joints self)]) = Inr qp"
    and qv: "np_put (replicate (length (qvel (sim_reset self (model self) (sim_data self)))) 0)
       (independent_joints self)
       (map (\<lambda>k. - 0.05 + (0.05 - - 0.05) * rng self (length (independent_joints self) + k))
          [0..<length (independent_joints self)]) = Inr qv"
    and a: "np_assign (act (sim_reset self (model self) (sim_data self)))
       (map (\<lambda>k. 0 + (1 - 0) * rng self (2 * length (independent_joints self) + k))
          [0..<na (model self)]) = Inr a"
    and s: "self1 = self\<lparr> sim_data := (sim_reset self (model self) (sim_data self))\<lparr>qpos := qp, qvel := qv, act := a\<rparr>,
                   rng := rng_drop (2 * length (independent_joints self) + na (model self)) (rng self),
                   effort_term := effort_reset self (effort_term self) \<rparr>"
    by blast
  from np_put_zero_rest [OF qp] np_put_zero_rest [OF qv] np_assign_Inr [OF a]
  show ?thesis by (simp add: s)
qed

lemma reset_state_rest_zero:
  assumes "reset_state self = Inr self1"
  shows "(\<forall>j < length (qpos (sim_data self1)).
            (\<forall>i \<in> set (independent_joints self).
               norm_index (length (qpos (sim_data self1))) i \<noteq> Some j) \<longrightarrow>
            qpos (sim_data self1) ! j = 0)
       \<and> (\<forall>j < length (qvel (sim_data self1)).
            (\<forall>i \<in> set (independent_joints self).
               norm_index (length (qvel (sim_data self1))) i \<noteq> Some j) \<longrightarrow>
            qvel (sim_data self1) ! j = 0)"
proof -
  from reset_state_Inr [OF assms] obtain qp qv a where
      qp: "np_put (replicate (length (qpos (sim_reset self (model self) (sim_data self)))) 0)
       (independent_joints self)
       (map (\<lambda>k. - 0.05 + (0.05 - - 0.05) * rng self k) [0..<length (independent_joints self)]) = Inr qp"
    and qv: "np_put (replicate (length (qvel (sim_reset self (model self) (sim_data self)))) 0)
       (independent_joints self)
       (map (\<lambda>k. - 0.05 + (0.05 - - 0.05) * rng self (length (independent_joints self) + k))
          [0..<length (independent_joints self)]) = Inr qv"
    and s: "self1 = self\<lparr> sim_data := (sim_reset self (model self) (sim_data self))\<lparr>qpos := qp, qvel := qv, act := a\<rparr>,
                   rng := rng_drop (2 * length (independent_joints self) + na (model self)) (rng self),
                   effort_term := effort_reset self (effort_term self) \<rparr>"
    by blast
  from np_put_zero_rest [OF qp] np_put_zero_rest [OF qv]
  show ?thesis by (simp add: s)
qed

lemma reset_state_samples:
  assumes r: "reset_state self = Inr self1" and u: "\<forall>i. 0 \<le> rng self i \<and> rng self i \<le> 1"
  shows "(\<forall>i \<in> set (independent_joints self).
            \<exists>j. norm_index (length (qpos (sim_data self1))) i = Some j \<and>
                - 0.05 \<le> qpos (sim_data self1) ! j \<and> qpos (sim_data self1) ! j \<le> 0.05)
       \<and> (\<forall>i \<in> set (independent_joints self).
            \<exists>j. norm_index (length (qvel (sim_data self1))) i = Some j \<and>
                - 0.05 \<le> qvel (sim_data self1) ! j \<and> qvel (sim_data self1) ! j \<le> 0.05)
       \<and> (\<forall>x \<in> set (act (sim_data self1)). 0 \<le> x \<and> x \<le> 1)"
proof -
  from reset_state_Inr [OF r] obtain qp qv a where
      qp: "np_put (replicate (length (qpos (sim_reset self (model self) (sim_data self)))) 0)
       (independent_joints self)
       (map (\<lambda>k. - 0.05 + (0.05 - - 0.05) * rng self k) [0..<length (independent_joints self)]) = Inr qp"
    and qv: "np_put (replicate (length (qvel (sim_reset self (model self) (sim_data self)))) 0)
       (independent_joints self)
       (map (\<lambda>k. - 0.05 + (0.05 - - 0.05) * rng self (length (independent_joints self) + k))
          [0..<length (independent_joints self)]) = Inr qv"
    and a: "np_assign (act (sim_reset self (model self) (sim_data self)))
       (map (\<lambda>k. 0 + (1 - 0) * rng self (2 * length (independent_joints self) + k))
          [0..<na (model self)]) = Inr a"
    and s: "self1 = self\<lparr> sim_data := (sim_reset self (model self) (sim_data self))\<lparr>qpos := qp, qvel := qv, act := a\<rparr>,
                   rng := rng_drop (2 * length (independent_joints self) + na (model self)) (rng self),
                   effort_term := effort_reset self (effort_term self) \<rparr>"
    by blast
  have b1: "\<forall>v \<in> set (map (\<lambda>k. - 0.05 + (0.05 - - 0.05) * rng self k) [0..<length (independent_joints self)]).
              - 0.05 \<le> v \<and> v \<le> 0.05"
    using u sample_bounds by auto
  have b2: "\<forall>v \<in> set (map (\<lambda>k. - 0.05 + (0.05 - - 0.05) * rng self (length (independent_joints self) + k))
          [0..<length (independent_joints self)]). - 0.05 \<le> v \<and> v \<le> 0.05"
    using u sample_bounds by auto
  have b3: "\<forall>v \<in> set (map (\<lambda>k. 0 + (1 - 0) * rng self (2 * length (independent_joints self) + k))
          [0..<na (model self)]). 0 \<le> v \<and> v \<le> 1"
    using u by auto
  have l1: "length qp = length (qpos (sim_reset self (model self) (sim_data self)))"
    and l2: "length qv = length (qvel (sim_reset self (model self) (sim_data self)))"
    using np_put_zero_rest [OF qp] np_put_zero_rest [OF qv] by simp_all
  from np_assign_Inr [OF a] b3 have c3: "\<forall>x \<in> set a. 0 \<le> x \<and> x \<le> 1" by blast
  from np_put_zero_samples [OF qp b1] np_put_zero_samples [OF qv b2] c3 l1 l2
  show ?thesis by (simp add: s)
qed

lemma reset_state_outside:
  assumes r: "reset_state self = Inr self1"
    and nn: "\<forall>i \<in> set (independent_joints self). 0 \<le> i"
    and i: "0 \<le> i" "i \<notin> set (independent_joints self)"
  shows "(i < int (length (qpos (sim_data self1))) \<longrightarrow> qpos (sim_data self1) ! nat i = 0)
       \<and> (i < int (length (qvel (sim_data self1))) \<longrightarrow> qvel (sim_data self1) ! nat i = 0)"
proof -
  have nohit: "\<And>n. \<forall>i' \<in> set (independent_joints self). norm_index n i' \<noteq> Some (nat i)"
  proof
    fix n i' assume i': "i' \<in> set (independent_joints self)"
    with nn have "0 \<le> i'" by simp
    moreover from i' i have "i' \<noteq> i" by auto
    ultimately show "norm_index n i' \<noteq> Some (nat i)"
      using i(1) by (auto simp: norm_index_nonneg)
  qed
  from reset_state_rest_zero [OF r] nohit i(1) show ?thesis
    by (auto simp: nat_less_iff)
qed

lemma reset_state_exact:
  assumes r: "reset_state self = Inr self1"
    and d: "distinct (independent_joints self)"
    and nn: "\<forall>i \<in> set (independent_joints self). 0 \<le> i"
    and k: "k < length (independent_joints self)"
  shows "qpos (sim_data self1) ! nat (independent_joints self ! k)
           = - 0.05 + (0.05 - - 0.05) * rng self k
       \<and> qvel (sim_data self1) ! nat (independent_joints self ! k)
           = - 0.05 + (0.05 - - 0.05) * rng self (length (independent_joints self) + k)"
proof -
  from reset_state_Inr [OF r] obtain qp qv a where
      qp: "np_put (replicate (length (qpos (sim_reset self (model self) (sim_data self)))) 0)
       (independent_joints self)
       (map (\<lambda>k. - 0.05 + (0.05 - - 0.05) * rng self k) [0..<length (independent_joints self)]) = Inr qp"
    and qv: "np_put (replicate (length (qvel (sim_reset self (model self) (sim_data self)))) 0)
       (independent_joints self)
       (map (\<lambda>k. - 0.05 + (0.05 - - 0.05) * rng self (length (independent_joints self) + k))
          [0..<length (independent_joints self)]) = Inr qv"
    and s: "self1 = self\<lparr> sim_data := (sim_reset self (model self) (sim_data self))\<lparr>qpos := qp, qvel := qv, act := a\<rparr>,
                   rng := rng_drop (2 * length (independent_joints self) + na (model self)) (rng self),
                   effort_term := effort_reset self (effort_term self) \<rparr>"
    by blast
  from np_put_exact [OF qp d nn] np_put_exact [OF qv d nn] k
  show ?thesis by (simp add: s)
qed

lemma reset_state_act_exact:
  assumes r: "reset_state self = Inr self1"
    and l: "length (act (sim_reset self (model self) (sim_data self))) = na (model self)"
  shows "act (sim_data self1)
           = map (\<lambda>k. rng self (2 * length (independent_joints self) + k)) [0..<na (model self)]"
proof -
  from reset_state_Inr [OF r] obtain qp qv a where
      a: "np_assign (act (sim_reset self (model self) (sim_data self)))
       (map (\<lambda>k. 0 + (1 - 0) * rng self (2 * length (independent_joints self) + k))
          [0..<na (model self)]) = Inr a"
    and s: "self1 = self\<lparr> sim_data := (sim_reset self (model self) (sim_data self))\<lparr>qpos := qp, qvel := qv, act := a\<rparr>,
                   rng := rng_drop (2 * length (independent_joints self) + na (model self)) (rng self),
                   effort_term := effort_reset self (effort_term self) \<rparr>"
    by blast
  from a l show ?thesis by (simp add: s np_assign_def)
qed

lemma reset_state_success:
  assumes "\<forall>i \<in> set (independent_joints self).
             \<exists>j. norm_index (length (qpos (sim_reset self (model self) (sim_data self)))) i = Some j"
    and "\<forall>i \<in> set (independent_joints self).
             \<exists>j. norm_index (length (qvel (sim_reset self (model self) (sim_data self)))) i = Some j"
    and "length (act (sim_reset self (model self) (sim_data self))) = na (model self)"
  shows "\<exists>self1. reset_state self = Inr self1"
proof -
  let ?n = "length (independent_joints self)"
  from assms(1) obtain qp where
    qp: "np_put (replicate (length (qpos (sim_reset self (model self) (sim_data self)))) 0)
       (independent_joints self) (map (\<lambda>k. - 0.05 + (0.05 - - 0.05) * rng self k) [0..<?n]) = Inr qp"
    using np_put_success [of "map (\<lambda>k. - 0.05 + (0.05 - - 0.05) * rng self k) [0..<?n]"
        "independent_joints self" "replicate (length (qpos (sim_reset self (model self) (sim_data self)))) 0"]
    by auto
  from assms(2) obtain qv where
    qv: "np_put (replicate (length (qvel (sim_reset self (model self) (sim_data self)))) 0)
       (independent_joints self) (map (\<lambda>k. - 0.05 + (0.05 - - 0.05) * rng_drop ?n (rng self) k) [0..<?n]) = Inr qv"
    using np_put_success [of "map (\<lambda>k. - 0.05 + (0.05 - - 0.05) * rng_drop ?n (rng self) k) [0..<?n]"
        "independent_joints self" "replicate (length (qvel (sim_reset self (model self) (sim_data self)))) 0"]
    by auto
  show ?thesis
    unfolding reset_state_def Let_def rng_uniform_replicate split_conv
    using qp qv assms(3) by (simp add: np_assign_def)
qed

lemma reset_state_same:
  assumes "reset_state self = Inr self1"
  shows "render_observations self1 = render_observations self"
    and "independent_joints self1 = independent_joints self"
    and "dependent_joints self1 = dependent_joints self"
    and "model self1 = model self"
proof -
  from reset_state_Inr [OF assms] obtain qp qv a where
    s: "self1 = self\<lparr> sim_data := (sim_reset self (model self) (sim_data self))\<lparr>qpos := qp, qvel := qv, act := a\<rparr>,
                   rng := rng_drop (2 * length (independent_joints self) + na (model self)) (rng self),
                   effort_term := effort_reset self (effort_term self) \<rparr>"
    by blast
  show "render_observations self1 = render_observations self"
    and "independent_joints self1 = independent_joints self"
    and "dependent_joints self1 = dependent_joints self"
    and "model self1 = model self"
    by (simp_all add: s)
qed

lemma reset_Inr:
  "reset self = Inr (obs, self') \<longleftrightarrow>
     (\<exists>self1. reset_state self = Inr self1 \<and>
        self' = self1\<lparr>sim_data := sim_forward self1 (model self1) (sim_data self1)\<rparr> \<and>
        get_observation self' = Inr obs)"
  by (auto simp: reset_def err_bind_eq_Inr Let_def)

lemma reset_joints:
  assumes "reset self = Inr (obs, self')"
  shows "dependent_joints self' = dependent_joints self
       \<and> independent_joints self' = independent_joints self"
proof -
  from assms obtain self1 where r1: "reset_state self = Inr self1"
    and s': "self' = self1\<lparr>sim_data := sim_forward self1 (model self1) (sim_data self1)\<rparr>"
    unfolding reset_Inr by blast
  from reset_state_same [OF r1] s' show ?thesis by simp
qed

lemma reset_state_dependent:
  assumes r: "reset_state self = Inr self1"
    and p: "set (independent_joints self)
              = {0..<int (njnt (model self))} - set (dependent_joints self)"
    and j: "j \<in> set (dependent_joints self)" "0 \<le> j"
  shows "(j < int (length (qpos (sim_data self1))) \<longrightarrow> qpos (sim_data self1) ! nat j = 0)
       \<and> (j < int (length (qvel (sim_data self1))) \<longrightarrow> qvel (sim_data self1) ! nat j = 0)"
proof -
  have nn: "\<forall>i \<in> set (independent_joints self). 0 \<le> i"
    unfolding p by simp
  have "j \<notin> set (independent_joints self)"
    using j(1) unfolding p by simp
  with r nn j(2) show ?thesis by (rule reset_state_outside)
qed

text \<open>
  Claim C6. A call of \<open>reset\<close> that returns has, in this order: reset the simulation;
  set every position and velocity to 0 except those indexed by the independent joints,
  which hold draws \<open>-0.05 + 0.1 * u\<close>, within [-0.05, 0.05] for unit draws \<open>u\<close>; set
  every activation to a unit draw, within [0, 1]; called the effort term's \<open>reset\<close>;
  applied \<open>sim.forward()\<close> once; and returned the observation of the resulting state.
  Positions and velocities outside the independent joints are exactly 0 before the
  forward pass and whatever the pass returns afterwards; so are those of the dependent
  joints, when the independent joints are the joint ids that are not dependent, as the
  construction makes them, in whatever order. The draws are
  taken in the order positions, velocities, activations. The state before the pass exists whenever the independent joints index
  the position and velocity arrays and the data has \<open>na\<close> activations.
\<close>

theorem reset_randomises_state:
  "(reset self = Inr (obs, self') \<longleftrightarrow>
      (\<exists>self1. reset_state self = Inr self1 \<and>
         self' = self1\<lparr>sim_data := sim_forward self1 (model self1) (sim_data self1)\<rparr> \<and>
         get_observation self' = Inr obs))
   \<and> (reset_state self = Inr self1 \<longrightarrow>
        effort_term self1 = effort_reset self (effort_term self)
        \<and> self1 = self\<lparr>sim_data := sim_data self1, rng := rng self1, effort_term := effort_term self1\<rparr>
        \<and> rng self1 = rng_drop (2 * length (independent_joints self) + na (model self)) (rng self)
        \<and> sim_data self1 = (sim_reset self (model self) (sim_data self))
             \<lparr>qpos := qpos (sim_data self1), qvel := qvel (sim_data self1), act := act (sim_data self1)\<rparr>
        \<and> length (qpos (sim_data self1)) = length (qpos (sim_reset self (model self) (sim_data self)))
        \<and> length (qvel (sim_data self1)) = length (qvel (sim_reset self (model self) (sim_data self)))
        \<and> length (act (sim_data self1)) = length (act (sim_reset self (model self) (sim_data self)))
        \<and> (\<forall>j < length (qpos (sim_data self1)).
              (\<forall>i \<in> set (independent_joints self).
                 norm_index (length (qpos (sim_data self1))) i \<noteq> Some j) \<longrightarrow>
              qpos (sim_data self1) ! j = 0)
        \<and> (\<forall>j < length (qvel (sim_data self1)).
              (\<forall>i \<in> set (independent_joints self).
                 norm_index (length (qvel (sim_data self1))) i \<noteq> Some j) \<longrightarrow>
              qvel (sim_data self1) ! j = 0))
   \<and> (reset_state self = Inr self1 \<and> (\<forall>i. 0 \<le> rng self i \<and> rng self i \<le> 1) \<longrightarrow>
        (\<forall>i \<in> set (independent_joints self).
            \<exists>j. norm_index (length (qpos (sim_data self1))) i = Some j \<and>
                - 0.05 \<le> qpos (sim_data self1) ! j \<and> qpos (sim_data self1) ! j \<le> 0.05)
        \<and> (\<forall>i \<in> set (independent_joints self).
            \<exists>j. norm_index (length (qvel (sim_data self1))) i = Some j \<and>
                - 0.05 \<le> qvel (sim_data self1) ! j \<and> qvel (sim_data self1) ! j \<le> 0.05)
        \<and> (\<forall>x \<in> set (act (sim_data self1)). 0 \<le> x \<and> x \<le> 1))
   \<and> (reset_state self = Inr self1 \<and> (\<forall>i \<in> set (independent_joints self). 0 \<le> i) \<and>
      0 \<le> d \<and> d \<notin> set (independent_joints self) \<longrightarrow>
        (d < int (length (qpos (sim_data self1))) \<longrightarrow> qpos (sim_data self1) ! nat d = 0)
        \<and> (d < int (length (qvel (sim_data self1))) \<longrightarrow> qvel (sim_data self1) ! nat d = 0))
   \<and> (reset_state self = Inr self1 \<and>
      set (independent_joints self)
        = {0..<int (njnt (model self))} - set (dependent_joints self) \<and>
      j \<in> set (dependent_joints self) \<and> 0 \<le> j \<longrightarrow>
        (j < int (length (qpos (sim_data self1))) \<longrightarrow> qpos (sim_data self1) ! nat j = 0)
        \<and> (j < int (length (qvel (sim_data self1))) \<longrightarrow> qvel (sim_data self1) ! nat j = 0))
   \<and> (reset_state self = Inr self1 \<and> distinct (independent_joints self) \<and>
      (\<forall>i \<in> set (independent_joints self). 0 \<le> i) \<and> k < length (independent_joints self) \<longrightarrow>
        qpos (sim_data self1) ! nat (independent_joints self ! k)
           = - 0.05 + (0.05 - - 0.05) * rng self k
        \<and> qvel (sim_data self1) ! nat (independent_joints self ! k)
           = - 0.05 + (0.05 - - 0.05) * rng self (length (independent_joints self) + k))
   \<and> (reset_state self = Inr self1 \<and>
      length (act (sim_reset self (model self) (sim_data self))) = na (model self) \<longrightarrow>
        act (sim_data self1)
           = map (\<lambda>k. rng self (2 * length (independent_joints self) + k)) [0..<na (model self)])
   \<and> ((\<forall>i \<in> set (independent_joints self).
         \<exists>j. norm_index (length (qpos (sim_reset self (model self) (sim_data self)))) i = Some j) \<and>
      (\<forall>i \<in> set (independent_joints self).
         \<exists>j. norm_index (length (qvel (sim_reset self (model self) (sim_data self)))) i = Some j) \<and>
      length (act (sim_reset self (model self) (sim_data self))) = na (model self) \<longrightarrow>
        (\<exists>s. reset_state self = Inr s))"
proof (intro conjI)
  show "reset self = Inr (obs, self') \<longleftrightarrow>
      (\<exists>self1. reset_state self = Inr self1 \<and>
         self' = self1\<lparr>sim_data := sim_forward self1 (model self1) (sim_data self1)\<rparr> \<and>
         get_observation self' = Inr obs)"
    by (rule reset_Inr)
next
  show "reset_state self = Inr self1 \<longrightarrow>
        effort_term self1 = effort_reset self (effort_term self)
        \<and> self1 = self\<lparr>sim_data := sim_data self1, rng := rng self1, effort_term := effort_term self1\<rparr>
        \<and> rng self1 = rng_drop (2 * length (independent_joints self) + na (model self)) (rng self)
        \<and> sim_data self1 = (sim_reset self (model self) (sim_data self))
             \<lparr>qpos := qpos (sim_data self1), qvel := qvel (sim_data self1), act := act (sim_data self1)\<rparr>
        \<and> length (qpos (sim_data self1)) = length (qpos (sim_reset self (model self) (sim_data self)))
        \<and> length (qvel (sim_data self1)) = length (qvel (sim_reset self (model self) (sim_data self)))
        \<and> length (act (sim_data self1)) = length (act (sim_reset self (model self) (sim_data self)))
        \<and> (\<forall>j < length (qpos (sim_data self1)).
              (\<forall>i \<in> set (independent_joints self).
                 norm_index (length (qpos (sim_data self1))) i \<noteq> Some j) \<longrightarrow>
              qpos (sim_data self1) ! j = 0)
        \<and> (\<forall>j < length (qvel (sim_data self1)).
              (\<forall>i \<in> set (independent_joints self).
                 norm_index (length (qvel (sim_data self1))) i \<noteq> Some j) \<longrightarrow>
              qvel (sim_data self1) ! j = 0)"
  proof
    assume r: "reset_state self = Inr self1"
    from reset_state_frame [OF r] reset_state_rest_zero [OF r]
    show "effort_term self1 = effort_reset self (effort_term self)
        \<and> self1 = self\<lparr>sim_data := sim_data self1, rng := rng self1, effort_term := effort_term self1\<rparr>
        \<and> rng self1 = rng_drop (2 * length (independent_joints self) + na (model self)) (rng self)
        \<and> sim_data self1 = (sim_reset self (model self) (sim_data self))
             \<lparr>qpos := qpos (sim_data self1), qvel := qvel (sim_data self1), act := act (sim_data self1)\<rparr>
        \<and> length (qpos (sim_data self1)) = length (qpos (sim_reset self (model self) (sim_data self)))
        \<and> length (qvel (sim_data self1)) = length (qvel (sim_reset self (model self) (sim_data self)))
        \<and> length (act (sim_data self1)) = length (act (sim_reset self (model self) (sim_data self)))
        \<and> (\<forall>j < length (qpos (sim_data self1)).
              (\<forall>i \<in> set (independent_joints self).
                 norm_index (length (qpos (sim_data self1))) i \<noteq> Some j) \<longrightarrow>
              qpos (sim_data self1) ! j = 0)
        \<and> (\<forall>j < length (qvel (sim_data self1)).
              (\<forall>i \<in> set (independent_joints self).
                 norm_index (length (qvel (sim_data self1))) i \<noteq> Some j) \<longrightarrow>
              qvel (sim_data self1) ! j = 0)"
      by blast
  qed
next
  show "reset_state self = Inr self1 \<and> (\<forall>i. 0 \<le> rng self i \<and> rng self i \<le> 1) \<longrightarrow>
        (\<forall>i \<in> set (independent_joints self).
            \<exists>j. norm_index (length (qpos (sim_data self1))) i = Some j \<and>
                - 0.05 \<le> qpos (sim_data self1) ! j \<and> qpos (sim_data self1) ! j \<le> 0.05)
        \<and> (\<forall>i \<in> set (independent_joints self).
            \<exists>j. norm_index (length (qvel (sim_data self1))) i = Some j \<and>
                - 0.05 \<le> qvel (sim_data self1) ! j \<and> qvel (sim_data self1) ! j \<le> 0.05)
        \<and> (\<forall>x \<in> set (act (sim_data self1)). 0 \<le> x \<and> x \<le> 1)"
    using reset_state_samples [of self self1] by blast
next
  show "reset_state self = Inr self1 \<and> (\<forall>i \<in> set (independent_joints self). 0 \<le> i) \<and>
      0 \<le> d \<and> d \<notin> set (independent_joints self) \<longrightarrow>
        (d < int (length (qpos (sim_data self1))) \<longrightarrow> qpos (sim_data self1) ! nat d = 0)
        \<and> (d < int (length (qvel (sim_data self1))) \<longrightarrow> qvel (sim_data self1) ! nat d = 0)"
    using reset_state_outside [of self self1 d] by blast
next
  show "reset_state self = Inr self1 \<and>
      set (independent_joints self)
        = {0..<int (njnt (model self))} - set (dependent_joints self) \<and>
      j \<in> set (dependent_joints self) \<and> 0 \<le> j \<longrightarrow>
        (j < int (length (qpos (sim_data self1))) \<longrightarrow> qpos (sim_data self1) ! nat j = 0)
        \<and> (j < int (length (qvel (sim_data self1))) \<longrightarrow> qvel (sim_data self1) ! nat j = 0)"
    using reset_state_dependent [of self self1 j] by blast
next
  show "reset_state self = Inr self1 \<and> distinct (independent_joints self) \<and>
      (\<forall>i \<in> set (independent_joints self). 0 \<le> i) \<and> k < length (independent_joints self) \<longrightarrow>
        qpos (sim_data self1) ! nat (independent_joints self ! k)
           = - 0.05 + (0.05 - - 0.05) * rng self k
        \<and> qvel (sim_data self1) ! nat (independent_joints self ! k)
           = - 0.05 + (0.05 - - 0.05) * rng self (length (independent_joints self) + k)"
    using reset_state_exact [of self self1 k] by blast
next
  show "reset_state self = Inr self1 \<and>
      length (act (sim_reset self (model self) (sim_data self))) = na (model self) \<longrightarrow>
        act (sim_data self1)
           = map (\<lambda>k. rng self (2 * length (independent_joints self) + k)) [0..<na (model self)]"
    using reset_state_act_exact [of self self1] by blast
next
  show "(\<forall>i \<in> set (independent_joints self).
         \<exists>j. norm_index (length (qpos (sim_reset self (model self) (sim_data self)))) i = Some j) \<and>
      (\<forall>i \<in> set (independent_joints self).
         \<exists>j. norm_index (length (qvel (sim_reset self (model self) (sim_data self)))) i = Some j) \<and>
      length (act (sim_reset self (model self) (sim_data self))) = na (model self) \<longrightarrow>
        (\<exists>s. reset_state self = Inr s)"
    using reset_state_success [of self] by blast
qed

theorem reset_randomises_state_witness:
  "reset (ex_env ''original'') = Inr (ex_reset_obs, ex_reset_post)
   \<and> reset_state (ex_env ''original'') = Inr ex_reset_pre
   \<and> list_all (\<lambda>i. 0 \<le> i) (independent_joints (ex_env ''original''))
   \<and> distinct (independent_joints (ex_env ''original''))
   \<and> (0::int) \<le> 3 \<and> 3 \<notin> set (independent_joints (ex_env ''original''))
   \<and> 3 \<in> set (dependent_joints (ex_env ''original''))
   \<and> set (independent_joints (ex_env ''original''))
        = {0..<int (njnt (model (ex_env ''original'')))} - set (dependent_joints (ex_env ''original''))
   \<and> 3 < int (length (qpos (sim_data ex_reset_pre)))
   \<and> qpos (sim_data ex_reset_pre) ! nat 3 = 0
   \<and> qvel (sim_data ex_reset_pre) ! nat 3 = 0
   \<and> (1::nat) < length (independent_joints (ex_env ''original''))
   \<and> qpos (sim_data ex_reset_pre) ! nat (independent_joints (ex_env ''original'') ! 1)
        = - 0.05 + (0.05 - - 0.05) * rng (ex_env ''original'') 1
   \<and> qpos (sim_data ex_reset_pre) = [- 1/40, 1/40, - 1/40, 0, 1/40]
   \<and> act (sim_data ex_reset_pre) = [1/4, 3/4]
   \<and> effort_term ex_reset_pre = 0
   \<and> get_observation ex_reset_post = Inr ex_reset_obs"
proof -
  note T = reset_randomises_state
             [of "ex_env ''original''" ex_reset_obs ex_reset_post ex_reset_pre 3 3 1]
  have u: "\<forall>i. 0 \<le> rng (ex_env ''original'') i \<and> rng (ex_env ''original'') i \<le> 1"
    by (simp add: ex_env_def)
  have nn: "\<forall>i \<in> set (independent_joints (ex_env ''original'')). 0 \<le> i"
    and dist: "distinct (independent_joints (ex_env ''original''))"
    and three: "(3::int) \<notin> set (independent_joints (ex_env ''original''))"
      "3 \<in> set (dependent_joints (ex_env ''original''))"
    and one: "(1::nat) < length (independent_joints (ex_env ''original''))"
    and len: "3 < int (length (qpos (sim_data ex_reset_pre)))"
      "3 < int (length (qvel (sim_data ex_reset_pre)))"
    by (simp_all add: ex_env_def ex_reset_pre_def ex_data_def)
  note T1 = T [THEN conjunct1]
  note T3 = T [THEN conjunct2, THEN conjunct2, THEN conjunct1]
  note T4 = T [THEN conjunct2, THEN conjunct2, THEN conjunct2, THEN conjunct1]
  note T5 = T [THEN conjunct2, THEN conjunct2, THEN conjunct2, THEN conjunct2, THEN conjunct1]
  note T6 = T [THEN conjunct2, THEN conjunct2, THEN conjunct2, THEN conjunct2, THEN conjunct2,
               THEN conjunct1]
  from T1 ex_reset have obs: "get_observation ex_reset_post = Inr ex_reset_obs"
    by blast
  have three0: "(0::int) \<le> 3" by simp
  have "(3 < int (length (qpos (sim_data ex_reset_pre))) \<longrightarrow> qpos (sim_data ex_reset_pre) ! nat 3 = 0)
      \<and> (3 < int (length (qvel (sim_data ex_reset_pre))) \<longrightarrow> qvel (sim_data ex_reset_pre) ! nat 3 = 0)"
    by (rule mp [OF T4]) (intro conjI ex_reset_state nn three0 three(1))
  with len have zero: "qpos (sim_data ex_reset_pre) ! nat 3 = 0"
    "qvel (sim_data ex_reset_pre) ! nat 3 = 0"
    by simp_all
  have five: "{0..<(5::int)} = {0, 1, 2, 3, 4}" by auto
  have built: "set (independent_joints (ex_env ''original''))
        = {0..<int (njnt (model (ex_env ''original'')))} - set (dependent_joints (ex_env ''original''))"
    using five by (auto simp: ex_env_def ex_model_def njnt_def)
  have "(3 < int (length (qpos (sim_data ex_reset_pre))) \<longrightarrow> qpos (sim_data ex_reset_pre) ! nat 3 = 0)
      \<and> (3 < int (length (qvel (sim_data ex_reset_pre))) \<longrightarrow> qvel (sim_data ex_reset_pre) ! nat 3 = 0)"
    by (rule mp [OF T5]) (intro conjI ex_reset_state built three(2) three0)
  have "qpos (sim_data ex_reset_pre) ! nat (independent_joints (ex_env ''original'') ! 1)
        = - 0.05 + (0.05 - - 0.05) * rng (ex_env ''original'') 1
      \<and> qvel (sim_data ex_reset_pre) ! nat (independent_joints (ex_env ''original'') ! 1)
        = - 0.05 + (0.05 - - 0.05)
            * rng (ex_env ''original'') (length (independent_joints (ex_env ''original'')) + 1)"
    by (rule mp [OF T6]) (intro conjI ex_reset_state dist nn one)
  then have exact: "qpos (sim_data ex_reset_pre) ! nat (independent_joints (ex_env ''original'') ! 1)
        = - 0.05 + (0.05 - - 0.05) * rng (ex_env ''original'') 1"
    by (rule conjunct1)
  have "(\<forall>i \<in> set (independent_joints (ex_env ''original'')).
            \<exists>j. norm_index (length (qpos (sim_data ex_reset_pre))) i = Some j \<and>
                - 0.05 \<le> qpos (sim_data ex_reset_pre) ! j \<and> qpos (sim_data ex_reset_pre) ! j \<le> 0.05)
        \<and> (\<forall>i \<in> set (independent_joints (ex_env ''original'')).
            \<exists>j. norm_index (length (qvel (sim_data ex_reset_pre))) i = Some j \<and>
                - 0.05 \<le> qvel (sim_data ex_reset_pre) ! j \<and> qvel (sim_data ex_reset_pre) ! j \<le> 0.05)
        \<and> (\<forall>x \<in> set (act (sim_data ex_reset_pre)). 0 \<le> x \<and> x \<le> 1)"
    by (rule mp [OF T3]) (intro conjI ex_reset_state u)
  have vals: "qpos (sim_data ex_reset_pre) = [- 1/40, 1/40, - 1/40, 0, 1/40]"
    "act (sim_data ex_reset_pre) = [1/4, 3/4]" "effort_term ex_reset_pre = 0"
    by (simp_all add: ex_reset_pre_def ex_data_def ex_env_def)
  have la: "list_all (\<lambda>i. 0 \<le> i) (independent_joints (ex_env ''original''))"
    using nn by (simp add: list_all_iff)
  show ?thesis
    by (intro conjI ex_reset ex_reset_state la dist three0 three built len(1) zero one exact vals obs)
qed

text \<open>
  Claim C8. An observation returned by \<open>get_observation\<close>, and so one returned by
  \<open>reset\<close>, has no visual part exactly when \<open>render_observations\<close> is off, and its
  proprioception vector has 3 * (number of independent joints) + 3 + (number of
  activations of the observed state) entries: the normalised positions, the velocities
  and the accelerations of the independent joints, the three coordinates of the
  fingertip and the normalised activations, in this order. \<open>get_observation\<close> returns
  whenever the independent joints index the four arrays it reads.
\<close>

theorem observation_shape:
  "(get_observation self = Inr obs \<longrightarrow>
      (visual obs = None \<longleftrightarrow> \<not> render_observations self)
      \<and> length (proprioception obs) =
          3 * length (independent_joints self) + 3 + length (act (sim_data self))
      \<and> (\<exists>jr q qv qa.
           np_take (jnt_range (model self)) (independent_joints self) = Inr jr \<and>
           np_take (qpos (sim_data self)) (independent_joints self) = Inr q \<and>
           np_take (qvel (sim_data self)) (independent_joints self) = Inr qv \<and>
           np_take (qacc (sim_data self)) (independent_joints self) = Inr qa \<and>
           proprioception obs =
             map2 qpos_normalise q jr @ map Fin qv @ map Fin qa
             @ map Fin [fst (geom_xpos (sim_data self) fingertip),
                        fst (snd (geom_xpos (sim_data self) fingertip)),
                        snd (snd (geom_xpos (sim_data self) fingertip))]
             @ map Fin (map act_normalise (act (sim_data self)))))
   \<and> (reset self = Inr (obs, self') \<longrightarrow>
        (visual obs = None \<longleftrightarrow> \<not> render_observations self)
        \<and> length (proprioception obs) =
            3 * length (independent_joints self) + 3 + length (act (sim_data self')))
   \<and> ((\<forall>i \<in> set (independent_joints self).
          (\<exists>j. norm_index (length (jnt_range (model self))) i = Some j) \<and>
          (\<exists>j. norm_index (length (qpos (sim_data self))) i = Some j) \<and>
          (\<exists>j. norm_index (length (qvel (sim_data self))) i = Some j) \<and>
          (\<exists>j. norm_index (length (qacc (sim_data self))) i = Some j)) \<longrightarrow>
        (\<exists>obs. get_observation self = Inr obs))"
proof (intro conjI impI)
  assume ok: "get_observation self = Inr obs"
  show "visual obs = None \<longleftrightarrow> \<not> render_observations self"
    using ok by (rule get_observation_visual)
  show "length (proprioception obs) =
          3 * length (independent_joints self) + 3 + length (act (sim_data self))"
    using ok by (rule get_observation_length)
  from get_observation_Inr [OF ok]
  show "\<exists>jr q qv qa.
           np_take (jnt_range (model self)) (independent_joints self) = Inr jr \<and>
           np_take (qpos (sim_data self)) (independent_joints self) = Inr q \<and>
           np_take (qvel (sim_data self)) (independent_joints self) = Inr qv \<and>
           np_take (qacc (sim_data self)) (independent_joints self) = Inr qa \<and>
           proprioception obs =
             map2 qpos_normalise q jr @ map Fin qv @ map Fin qa
             @ map Fin [fst (geom_xpos (sim_data self) fingertip),
                        fst (snd (geom_xpos (sim_data self) fingertip)),
                        snd (snd (geom_xpos (sim_data self) fingertip))]
             @ map Fin (map act_normalise (act (sim_data self)))"
    by blast
next
  assume r: "reset self = Inr (obs, self')"
  then obtain self1 where r1: "reset_state self = Inr self1"
    and s': "self' = self1\<lparr>sim_data := sim_forward self1 (model self1) (sim_data self1)\<rparr>"
    and ok: "get_observation self' = Inr obs"
    unfolding reset_Inr by blast
  from reset_state_same [OF r1] s' have same: "render_observations self' = render_observations self"
    "independent_joints self' = independent_joints self"
    by simp_all
  show "visual obs = None \<longleftrightarrow> \<not> render_observations self"
    using get_observation_visual [OF ok] same by simp
  show "length (proprioception obs) =
            3 * length (independent_joints self) + 3 + length (act (sim_data self'))"
    using get_observation_length [OF ok] same by simp
next
  assume "\<forall>i \<in> set (independent_joints self).
          (\<exists>j. norm_index (length (jnt_range (model self))) i = Some j) \<and>
          (\<exists>j. norm_index (length (qpos (sim_data self))) i = Some j) \<and>
          (\<exists>j. norm_index (length (qvel (sim_data self))) i = Some j) \<and>
          (\<exists>j. norm_index (length (qacc (sim_data self))) i = Some j)"
  then show "\<exists>obs. get_observation self = Inr obs"
    by (rule get_observation_success)
qed

theorem observation_shape_witness:
  "get_observation (ex_env ''original'') = Inr ex_obs
   \<and> reset (ex_env ''original'') = Inr (ex_reset_obs, ex_reset_post)
   \<and> \<not> render_observations (ex_env ''original'')
   \<and> visual ex_obs = None \<and> visual ex_reset_obs = None
   \<and> length (independent_joints (ex_env ''original'')) = 4
   \<and> length (act (sim_data (ex_env ''original''))) = 2
   \<and> length (proprioception ex_obs) = 17
   \<and> length (proprioception ex_reset_obs) = 17
   \<and> list_all (\<lambda>i. norm_index (length (qpos (sim_data (ex_env ''original'')))) i \<noteq> None)
        (independent_joints (ex_env ''original''))"
proof -
  note T = observation_shape [of "ex_env ''original''" ex_obs ex_reset_post]
  note T' = observation_shape [of "ex_env ''original''" ex_reset_obs ex_reset_post]
  have e: "\<not> render_observations (ex_env ''original'')"
    "length (independent_joints (ex_env ''original'')) = 4"
    "length (act (sim_data (ex_env ''original''))) = 2"
    "length (act (sim_data ex_reset_post)) = 2"
    "list_all (\<lambda>i. norm_index (length (qpos (sim_data (ex_env ''original'')))) i \<noteq> None)
        (independent_joints (ex_env ''original''))"
    by (simp_all add: ex_env_def ex_data_def ex_reset_post_def ex_reset_pre_def norm_index_def)
  from T ex_get_observation
  have "(visual ex_obs = None \<longleftrightarrow> \<not> render_observations (ex_env ''original''))
      \<and> length (proprioception ex_obs) =
          3 * length (independent_joints (ex_env ''original'')) + 3
          + length (act (sim_data (ex_env ''original'')))"
    by blast
  with e have 1: "visual ex_obs = None" "length (proprioception ex_obs) = 17"
    by simp_all
  from T' ex_reset
  have "(visual ex_reset_obs = None \<longleftrightarrow> \<not> render_observations (ex_env ''original''))
      \<and> length (proprioception ex_reset_obs) =
          3 * length (independent_joints (ex_env ''original'')) + 3
          + length (act (sim_data ex_reset_post))"
    by blast
  with e have 2: "visual ex_reset_obs = None" "length (proprioception ex_reset_obs) = 17"
    by simp_all
  from ex_get_observation ex_reset e 1 2 show ?thesis by simp
qed

section \<open>Properties of the construction\<close>

text \<open>
  Claim C3. The dependent and the independent joints do not partition the joint set
  for a model with an active constraint that does not couple joints: with one joint and
  an active weld constraint (type 1) whose first object is body 2, the construction
  returns an environment whose dependent joints are [2], although 2 is no joint id, and
  whose independent joints are [0]; the union of the two sets is {0, 2}, not the joint
  set {0}. The constructor takes the first object of every active constraint, whatever
  its type, while its search for the shoulder constraint does look at the type.
\<close>

theorem joint_partition_weld_model:
  "init_env ''original'' weld_model ex_data ex_external ex_kwargs = Inr weld_env
   \<and> njnt weld_model = 1
   \<and> eq_type (eqs weld_model ! 0) = 1
   \<and> eq_active (eqs weld_model ! 0) = 1
   \<and> dependent_joints weld_env = [2]
   \<and> independent_joints weld_env = [0]
   \<and> 2 \<notin> {0..<int (njnt weld_model)}
   \<and> set (independent_joints weld_env) \<union> set (dependent_joints weld_env)
        \<noteq> {0..<int (njnt weld_model)}"
proof -
  have i: "init_env ''original'' weld_model ex_data ex_external ex_kwargs = Inr weld_env"
    by (simp add: init_env_def ex_env_def weld_env_def weld_model_def ex_external_def
        ex_kwargs_def np_set_def norm_index_def kwargs_get_def compute_dependent_joints_def
        compute_independent_joints_def njnt_def)
  have n: "njnt weld_model = 1" by (simp add: njnt_def weld_model_def)
  have t: "eq_type (eqs weld_model ! 0) = 1" "eq_active (eqs weld_model ! 0) = 1"
    by (simp_all add: weld_model_def)
  have d: "dependent_joints weld_env = [2]" "independent_joints weld_env = [0]"
    by (simp_all add: weld_env_def)
  have o: "(2::int) \<notin> {0..<int (njnt weld_model)}" by (simp add: n)
  have "(2::int) \<in> set (independent_joints weld_env) \<union> set (dependent_joints weld_env)"
    by (simp add: d)
  with o have u: "set (independent_joints weld_env) \<union> set (dependent_joints weld_env)
        \<noteq> {0..<int (njnt weld_model)}"
    by blast
  show ?thesis by (intro conjI i n t d o u)
qed

lemma shoulder_matches_set:
  "set (shoulder_matches m) = {idx. idx < length (eqs m) \<and> shoulder_match m (eqs m ! idx)}"
  by (auto simp: shoulder_matches_def)

lemma shoulder_matches_distinct: "distinct (shoulder_matches m)"
  by (simp add: shoulder_matches_def)

lemma shoulder_matches_unique:
  "length (shoulder_matches m) = 1 \<longleftrightarrow>
     (\<exists>!idx. idx < length (eqs m) \<and> shoulder_match m (eqs m ! idx))"
  using length_one_iff_unique [OF shoulder_matches_distinct [of m]]
  by (simp add: shoulder_matches_set)

lemma shoulder_matches_first:
  assumes "length (shoulder_matches m) = 1"
  shows "shoulder_matches m ! 0 < length (eqs m) \<and> shoulder_match m (eqs m ! (shoulder_matches m ! 0))"
proof -
  from assms have "shoulder_matches m ! 0 \<in> set (shoulder_matches m)"
    by (simp add: nth_mem)
  then show ?thesis by (simp add: shoulder_matches_set)
qed

lemma init_env_patch_Inr:
  assumes "prefix ''patch'' variant" and "init_env variant m d ext kw = Inr env"
  shows "length (shoulder_matches m) = 1 \<and> eq_ID_shoulder1_r2 env = Some (shoulder_matches m ! 0)"
  using assms
  by (auto simp: init_env_def err_bind_eq_Inr Let_def split: if_splits)

lemma init_env_patch_assertion:
  assumes "prefix ''patch'' variant" and "length (shoulder_matches m) \<noteq> 1"
  shows "init_env variant m d ext kw = Inl AssertionError"
  using assms by (simp add: init_env_def Let_def)

lemma init_env_success:
  assumes "prefix ''patch'' variant \<longrightarrow> length (shoulder_matches m) = 1"
    and "norm_index (length (cam_pos m)) (camera_name2id m ''for_testing'') = Some j"
    and "norm_index (length (cam_quat m)) (camera_name2id m ''for_testing'') = Some j'"
  shows "\<exists>env. init_env variant m d ext kw = Inr env"
  using assms by (simp add: init_env_def Let_def np_set_def)

lemma init_env_original_no_attribute:
  assumes "\<not> prefix ''patch'' variant" and "init_env variant m d ext kw = Inr env"
  shows "eq_ID_shoulder1_r2 env = None"
  using assms
  by (auto simp: init_env_def err_bind_eq_Inr Let_def split: if_splits)

lemma shoulder_match_is_link:
  assumes inv1: "joint_name2id m (joint_id2name m (eq_obj1id e)) = eq_obj1id e"
    and inv2: "joint_name2id m (joint_id2name m (eq_obj2id e)) = eq_obj2id e"
    and p1: "0 < joint_name2id m ''shoulder1_r2''" and p2: "0 < joint_name2id m ''elv_angle''"
  shows "shoulder_match m e \<longleftrightarrow> links_shoulder_joints m e"
proof
  assume "shoulder_match m e"
  then show "links_shoulder_joints m e"
    by (simp add: shoulder_match_def links_shoulder_joints_def)
next
  assume l: "links_shoulder_joints m e"
  then have n1: "joint_id2name m (eq_obj1id e) \<in> {''shoulder1_r2'', ''elv_angle''}"
    and n2: "joint_id2name m (eq_obj2id e) \<in> {''shoulder1_r2'', ''elv_angle''}"
    unfolding links_shoulder_joints_def by blast+
  from n1 inv1 p1 p2 have "0 < eq_obj1id e" by (metis insertE singletonD)
  moreover from n2 inv2 p1 p2 have "0 < eq_obj2id e" by (metis insertE singletonD)
  ultimately show "shoulder_match m e"
    using l by (simp add: shoulder_match_def links_shoulder_joints_def)
qed

lemma shoulder_match_link: "shoulder_match m e \<Longrightarrow> links_shoulder_joints m e"
  by (simp add: shoulder_match_def links_shoulder_joints_def)

lemma unique_match_unique_link:
  assumes c: "joint_tables_consistent m"
    and u: "\<exists>!idx. idx < length (eqs m) \<and> shoulder_match m (eqs m ! idx)"
  shows "\<exists>!idx. idx < length (eqs m) \<and> links_shoulder_joints m (eqs m ! idx)"
proof -
  from u obtain idx0 where i0: "idx0 < length (eqs m)"
    and m0: "shoulder_match m (eqs m ! idx0)"
    and only: "\<And>idx. idx < length (eqs m) \<Longrightarrow> shoulder_match m (eqs m ! idx) \<Longrightarrow> idx = idx0"
    by blast
  let ?e0 = "eqs m ! idx0"
  from i0 have "?e0 \<in> set (eqs m)" by simp
  moreover from m0 have t0: "eq_type ?e0 = 2" and p1: "0 < eq_obj1id ?e0" and nz: "eq_obj2id ?e0 \<noteq> 0"
    and names: "{joint_id2name m (eq_obj1id ?e0), joint_id2name m (eq_obj2id ?e0)}
                  = {''shoulder1_r2'', ''elv_angle''}"
    by (simp_all add: shoulder_match_def)
  ultimately have inv0: "joint_name2id m (joint_id2name m (eq_obj1id ?e0)) = eq_obj1id ?e0"
    "joint_name2id m (joint_id2name m (eq_obj2id ?e0)) = eq_obj2id ?e0"
    and "0 \<le> eq_obj2id ?e0"
    using c by (simp_all add: joint_tables_consistent_def)
  with nz have p2: "0 < eq_obj2id ?e0" by simp
  from names have "''shoulder1_r2'' = joint_id2name m (eq_obj1id ?e0)
      \<or> ''shoulder1_r2'' = joint_id2name m (eq_obj2id ?e0)"
    by (metis insertCI insertE singletonD)
  with inv0 p1 p2 have pX: "0 < joint_name2id m ''shoulder1_r2''" by auto
  from names have "''elv_angle'' = joint_id2name m (eq_obj1id ?e0)
      \<or> ''elv_angle'' = joint_id2name m (eq_obj2id ?e0)"
    by (metis insertCI insertE singletonD)
  with inv0 p1 p2 have pY: "0 < joint_name2id m ''elv_angle''" by auto
  have link_match: "\<And>idx. idx < length (eqs m) \<Longrightarrow> links_shoulder_joints m (eqs m ! idx)
                      \<Longrightarrow> shoulder_match m (eqs m ! idx)"
  proof -
    fix idx assume i: "idx < length (eqs m)" and l: "links_shoulder_joints m (eqs m ! idx)"
    from i have "eqs m ! idx \<in> set (eqs m)" by simp
    moreover from l have "eq_type (eqs m ! idx) = 2" by (simp add: links_shoulder_joints_def)
    ultimately have "joint_name2id m (joint_id2name m (eq_obj1id (eqs m ! idx))) = eq_obj1id (eqs m ! idx)"
      "joint_name2id m (joint_id2name m (eq_obj2id (eqs m ! idx))) = eq_obj2id (eqs m ! idx)"
      using c by (simp_all add: joint_tables_consistent_def)
    from shoulder_match_is_link [OF this pX pY] l
    show "shoulder_match m (eqs m ! idx)" by simp
  qed
  show ?thesis
  proof (rule ex1I [of _ idx0])
    show "idx0 < length (eqs m) \<and> links_shoulder_joints m (eqs m ! idx0)"
      using i0 m0 by (simp add: shoulder_match_link)
  next
    fix idx assume "idx < length (eqs m) \<and> links_shoulder_joints m (eqs m ! idx)"
    then show "idx = idx0" using link_match only by blast
  qed
qed

text \<open>
  Claim C5. With a variant that starts with \<open>patch\<close>, construction returns an environment
  only if exactly one constraint index satisfies the search condition (type 2, a
  positive first id, a non-zero second id, the two joints named \<open>shoulder1_r2\<close> and
  \<open>elv_angle\<close>), and then that index is the cached attribute; if not exactly one index
  does, construction ends in the assertion error and returns no environment. With
  exactly one match, construction returns as soon as the camera \<open>for_testing\<close> indexes
  the camera arrays. In the claim's words: when the name tables agree on the joints of
  the joint-coupling constraints, construction returns only if exactly one constraint of
  the joint-coupling type links the joints named \<open>shoulder1_r2\<close> and \<open>elv_angle\<close>, and ends
  in the assertion error if not exactly one does.
\<close>

theorem init_env_shoulder_constraint:
  "(prefix ''patch'' variant \<and> init_env variant m d ext kw = Inr env \<longrightarrow>
      (\<exists>!idx. idx < length (eqs m) \<and> shoulder_match m (eqs m ! idx))
      \<and> (\<exists>idx. eq_ID_shoulder1_r2 env = Some idx \<and> idx < length (eqs m) \<and>
            shoulder_match m (eqs m ! idx) \<and> links_shoulder_joints m (eqs m ! idx)))
   \<and> (prefix ''patch'' variant \<and>
      \<not> (\<exists>!idx. idx < length (eqs m) \<and> shoulder_match m (eqs m ! idx)) \<longrightarrow>
        init_env variant m d ext kw = Inl AssertionError)
   \<and> (prefix ''patch'' variant \<and>
      (\<exists>!idx. idx < length (eqs m) \<and> shoulder_match m (eqs m ! idx)) \<and>
      norm_index (length (cam_pos m)) (camera_name2id m ''for_testing'') = Some j \<and>
      norm_index (length (cam_quat m)) (camera_name2id m ''for_testing'') = Some j' \<longrightarrow>
        (\<exists>env. init_env variant m d ext kw = Inr env))
   \<and> (prefix ''patch'' variant \<and> joint_tables_consistent m \<and>
      init_env variant m d ext kw = Inr env \<longrightarrow>
        (\<exists>!idx. idx < length (eqs m) \<and> links_shoulder_joints m (eqs m ! idx)))
   \<and> (prefix ''patch'' variant \<and> joint_tables_consistent m \<and>
      \<not> (\<exists>!idx. idx < length (eqs m) \<and> links_shoulder_joints m (eqs m ! idx)) \<longrightarrow>
        init_env variant m d ext kw = Inl AssertionError)"
proof (intro conjI impI)
  assume a: "prefix ''patch'' variant \<and> init_env variant m d ext kw = Inr env"
  then have one: "length (shoulder_matches m) = 1"
    and id: "eq_ID_shoulder1_r2 env = Some (shoulder_matches m ! 0)"
    using init_env_patch_Inr [of variant m d ext kw env] by simp_all
  from one shoulder_matches_unique [of m]
  show "\<exists>!idx. idx < length (eqs m) \<and> shoulder_match m (eqs m ! idx)"
    by blast
  from shoulder_matches_first [OF one] id shoulder_match_link [of m]
  show "\<exists>idx. eq_ID_shoulder1_r2 env = Some idx \<and> idx < length (eqs m) \<and>
            shoulder_match m (eqs m ! idx) \<and> links_shoulder_joints m (eqs m ! idx)"
    by blast
next
  assume "prefix ''patch'' variant \<and>
      \<not> (\<exists>!idx. idx < length (eqs m) \<and> shoulder_match m (eqs m ! idx))"
  then show "init_env variant m d ext kw = Inl AssertionError"
    using init_env_patch_assertion [of variant m d ext kw] shoulder_matches_unique [of m]
    by blast
next
  assume "prefix ''patch'' variant \<and>
      (\<exists>!idx. idx < length (eqs m) \<and> shoulder_match m (eqs m ! idx)) \<and>
      norm_index (length (cam_pos m)) (camera_name2id m ''for_testing'') = Some j \<and>
      norm_index (length (cam_quat m)) (camera_name2id m ''for_testing'') = Some j'"
  then show "\<exists>env. init_env variant m d ext kw = Inr env"
    using init_env_success [of variant m j j' d ext kw] shoulder_matches_unique [of m]
    by blast
next
  assume a: "prefix ''patch'' variant \<and> joint_tables_consistent m \<and>
      init_env variant m d ext kw = Inr env"
  then have "length (shoulder_matches m) = 1"
    using init_env_patch_Inr [of variant m d ext kw env] by simp
  with shoulder_matches_unique [of m]
  have "\<exists>!idx. idx < length (eqs m) \<and> shoulder_match m (eqs m ! idx)" by blast
  with a show "\<exists>!idx. idx < length (eqs m) \<and> links_shoulder_joints m (eqs m ! idx)"
    using unique_match_unique_link [of m] by blast
next
  assume a: "prefix ''patch'' variant \<and> joint_tables_consistent m \<and>
      \<not> (\<exists>!idx. idx < length (eqs m) \<and> links_shoulder_joints m (eqs m ! idx))"
  then have "\<not> (\<exists>!idx. idx < length (eqs m) \<and> shoulder_match m (eqs m ! idx))"
    using unique_match_unique_link [of m] by blast
  with a show "init_env variant m d ext kw = Inl AssertionError"
    using init_env_patch_assertion [of variant m d ext kw] shoulder_matches_unique [of m]
    by blast
qed

lemma ex_unique_match:
  "\<exists>!idx. idx < length (eqs ex_model) \<and> shoulder_match ex_model (eqs ex_model ! idx)"
  using shoulder_matches_unique [of ex_model] ex_shoulder_matches by simp

theorem init_env_shoulder_constraint_witness:
  "prefix ''patch'' ''patch-v2''
   \<and> init_env ''patch-v2'' ex_model ex_data ex_external ex_kwargs = Inr (ex_env ''patch-v2'')
   \<and> (\<exists>!idx. idx < length (eqs ex_model) \<and> shoulder_match ex_model (eqs ex_model ! idx))
   \<and> eq_ID_shoulder1_r2 (ex_env ''patch-v2'') = Some 0
   \<and> shoulder_match ex_model (eqs ex_model ! 0)
   \<and> \<not> (\<exists>!idx. idx < length (eqs unconstrained_model) \<and>
            shoulder_match unconstrained_model (eqs unconstrained_model ! idx))
   \<and> init_env ''patch-v2'' unconstrained_model ex_data ex_external ex_kwargs = Inl AssertionError
   \<and> norm_index (length (cam_pos ex_model)) (camera_name2id ex_model ''for_testing'') = Some 0
   \<and> norm_index (length (cam_quat ex_model)) (camera_name2id ex_model ''for_testing'') = Some 0
   \<and> joint_tables_consistent ex_model
   \<and> (\<exists>!idx. idx < length (eqs ex_model) \<and> links_shoulder_joints ex_model (eqs ex_model ! idx))
   \<and> joint_tables_consistent unconstrained_model
   \<and> \<not> (\<exists>!idx. idx < length (eqs unconstrained_model) \<and>
            links_shoulder_joints unconstrained_model (eqs unconstrained_model ! idx))"
proof -
  note T = init_env_shoulder_constraint
     [of "''patch-v2''" ex_model ex_data ex_external ex_kwargs "ex_env ''patch-v2''" 0 0]
  note T' = init_env_shoulder_constraint
     [of "''patch-v2''" unconstrained_model ex_data ex_external ex_kwargs "ex_env ''patch-v2''" 0 0]
  note T1 = T [THEN conjunct1]
  note T4 = T [THEN conjunct2, THEN conjunct2, THEN conjunct2, THEN conjunct1]
  note T2' = T' [THEN conjunct2, THEN conjunct1]
  note T5' = T' [THEN conjunct2, THEN conjunct2, THEN conjunct2, THEN conjunct2]
  have p: "prefix ''patch'' ''patch-v2''" by simp
  have none: "\<not> (\<exists>!idx. idx < length (eqs unconstrained_model) \<and>
            shoulder_match unconstrained_model (eqs unconstrained_model ! idx))"
    by (auto simp: unconstrained_model_def)
  have none': "\<not> (\<exists>!idx. idx < length (eqs unconstrained_model) \<and>
            links_shoulder_joints unconstrained_model (eqs unconstrained_model ! idx))"
    by (auto simp: unconstrained_model_def)
  have cam1: "norm_index (length (cam_pos ex_model)) (camera_name2id ex_model ''for_testing'') = Some 0"
    by (simp add: ex_model_def norm_index_def)
  have cam2: "norm_index (length (cam_quat ex_model)) (camera_name2id ex_model ''for_testing'') = Some 0"
    by (simp add: ex_model_def norm_index_def)
  have tab: "joint_tables_consistent ex_model"
    by (simp add: joint_tables_consistent_def ex_model_def ex_id2name_def ex_name2id_def)
  have tab': "joint_tables_consistent unconstrained_model"
    by (simp add: joint_tables_consistent_def unconstrained_model_def ex_model_def)
  have id0: "eq_ID_shoulder1_r2 (ex_env ''patch-v2'') = Some 0"
    by (simp add: ex_env_def)
  have "(\<exists>!idx. idx < length (eqs ex_model) \<and> shoulder_match ex_model (eqs ex_model ! idx))
      \<and> (\<exists>idx. eq_ID_shoulder1_r2 (ex_env ''patch-v2'') = Some idx \<and> idx < length (eqs ex_model) \<and>
            shoulder_match ex_model (eqs ex_model ! idx) \<and>
            links_shoulder_joints ex_model (eqs ex_model ! idx))"
    by (rule mp [OF T1]) (intro conjI p ex_init_patch)
  then obtain idx where "eq_ID_shoulder1_r2 (ex_env ''patch-v2'') = Some idx"
    and "shoulder_match ex_model (eqs ex_model ! idx)"
    by (elim conjE exE)
  with id0 have m0: "shoulder_match ex_model (eqs ex_model ! 0)" by simp
  have l1: "\<exists>!idx. idx < length (eqs ex_model) \<and> links_shoulder_joints ex_model (eqs ex_model ! idx)"
    by (rule mp [OF T4]) (intro conjI p tab ex_init_patch)
  have fail: "init_env ''patch-v2'' unconstrained_model ex_data ex_external ex_kwargs = Inl AssertionError"
    by (rule mp [OF T2']) (intro conjI p none)
  have fail': "init_env ''patch-v2'' unconstrained_model ex_data ex_external ex_kwargs = Inl AssertionError"
    by (rule mp [OF T5']) (intro conjI p tab' none')
  show ?thesis
    by (intro conjI p ex_init_patch ex_unique_match id0 m0 none fail cam1 cam2 tab l1 tab' none')
qed

end
